theory Spec2Isabelle
  imports Main "HOL-Library.Multiset"
begin

section \<open>Engine/LoadKnobsCompat.cpp: the string comparison functions\<close>

text \<open>
  A \<^verbatim>\<open>std::string\<close> is a sequence of bytes, modelled by \<^typ>\<open>string\<close>.
  The C++ \<^verbatim>\<open>int\<close> version fields are only ever compared, never computed with, so they
  are modelled by \<^typ>\<open>int\<close>.
\<close>

type_synonym stringFuncPtr = "string \<Rightarrow> string \<Rightarrow> bool"

text \<open>\<^verbatim>\<open>str.substr(0, prefix.size()) == prefix\<close>\<close>

definition startsWith :: "string \<Rightarrow> string \<Rightarrow> bool" where
  "startsWith str prefix = (take (length prefix) str = prefix)"

text \<open>\<^verbatim>\<open>str.size() >= suffix.size() && str.compare(str.size() - suffix.size(), suffix.size(), suffix) == 0\<close>\<close>

definition endsWith :: "string \<Rightarrow> string \<Rightarrow> bool" where
  "endsWith str suffix =
     (length suffix \<le> length str \<and>
      take (length suffix) (drop (length str - length suffix) str) = suffix)"

definition equalsStringCaseSensitive :: "string \<Rightarrow> string \<Rightarrow> bool" where
  "equalsStringCaseSensitive str1 str2 = (str1 = str2)"

text \<open>
  \<^verbatim>\<open>boost::iequals\<close> is a library function: it walks both strings together, compares
  the elements after \<^verbatim>\<open>std::toupper\<close>, and succeeds when both strings end together.
  \<^verbatim>\<open>std::toupper\<close> is taken in the classic "C" locale, where it maps the bytes
  \<^verbatim>\<open>a\<close>..\<^verbatim>\<open>z\<close> to \<^verbatim>\<open>A\<close>..\<^verbatim>\<open>Z\<close> and leaves every other byte alone.
\<close>

definition to_upper :: "char \<Rightarrow> char" where
  "to_upper c =
     (case map_of (zip ''abcdefghijklmnopqrstuvwxyz'' ''ABCDEFGHIJKLMNOPQRSTUVWXYZ'') c of
        Some u \<Rightarrow> u
      | None \<Rightarrow> c)"

fun iequals :: "string \<Rightarrow> string \<Rightarrow> bool" where
  "iequals [] [] = True"
| "iequals (a # as) (b # bs) = (if to_upper a = to_upper b then iequals as bs else False)"
| "iequals [] (b # bs) = False"
| "iequals (a # as) [] = False"

definition equalsStringCaseInsensitive :: "string \<Rightarrow> string \<Rightarrow> bool" where
  "equalsStringCaseInsensitive str1 str2 = iequals str1 str2"

section \<open>The rule model\<close>

record FilterMatcher =
  nameToMatch :: string
  func :: stringFuncPtr

record PluginMatch =
  pluginID :: string
  pluginVersionMajorMin :: int
  pluginVersionMinorMin :: int
  pluginVersionMajorMax :: int
  pluginVersionMinorMax :: int
  func :: stringFuncPtr

text \<open>The field \<^verbatim>\<open>filter\<close> of \<^verbatim>\<open>KnobMatch\<close> is named \<open>filter_m\<close> here.\<close>

record KnobMatch =
  plugin :: "PluginMatch list"
  filter_m :: FilterMatcher

record NatronVersionMatch =
  vMajor :: int
  vMinor :: int
  vRev :: int

text \<open>
  \<^verbatim>\<open>KnobChoiceOptionFilter\<close> has the fields of \<^verbatim>\<open>KnobNameFilter\<close> and
  \<^verbatim>\<open>optionFilters\<close>; it is modelled as a record extension, so that the template
  \<^verbatim>\<open>matchKnobFilterInternal<FILTER>\<close> is one function on the record scheme.
\<close>

record KnobNameFilter =
  filters :: "KnobMatch list"
  replacement :: string
  natronVersionMin :: NatronVersionMatch
  natronVersionMax :: NatronVersionMatch

record KnobChoiceOptionFilter = KnobNameFilter +
  optionFilters :: "FilterMatcher list"

datatype error = AssertionFailed

section \<open>matchKnobFilterInternal\<close>

text \<open>The condition of the first \<^verbatim>\<open>if\<close> (lines 574-583): the lower bound rejects.\<close>

definition natronVersionMinReject :: "NatronVersionMatch \<Rightarrow> int \<Rightarrow> int \<Rightarrow> int \<Rightarrow> bool" where
  "natronVersionMinReject mn natronVersionMajor natronVersionMinor natronVersionRevision =
     (natronVersionMajor \<noteq> -1 \<and>
      vMajor mn \<noteq> -1 \<and>
      (natronVersionMajor < vMajor mn \<or>
       (vMinor mn \<noteq> -1 \<and>
        ((natronVersionMajor = vMajor mn \<and> natronVersionMinor < vMinor mn) \<or>
         (vRev mn \<noteq> -1 \<and>
          natronVersionMajor = vMajor mn \<and>
          natronVersionMinor = vMinor mn \<and>
          natronVersionRevision < vRev mn)))))"

text \<open>The condition of the second \<^verbatim>\<open>if\<close> (lines 587-596): the upper bound rejects.\<close>

definition natronVersionMaxReject :: "NatronVersionMatch \<Rightarrow> int \<Rightarrow> int \<Rightarrow> int \<Rightarrow> bool" where
  "natronVersionMaxReject mx natronVersionMajor natronVersionMinor natronVersionRevision =
     (natronVersionMajor \<noteq> -1 \<and>
      vMajor mx \<noteq> -1 \<and>
      (natronVersionMajor > vMajor mx \<or>
       (vMinor mx \<noteq> -1 \<and>
        ((natronVersionMajor = vMajor mx \<and> natronVersionMinor > vMinor mx) \<or>
         (vRev mx \<noteq> -1 \<and>
          natronVersionMajor = vMajor mx \<and>
          natronVersionMinor = vMinor mx \<and>
          natronVersionRevision > vRev mx)))))"

text \<open>The conditions of the two version tests on a plug-in constraint (lines 611-616, 621-626).\<close>

definition pluginVersionMinReject :: "PluginMatch \<Rightarrow> int \<Rightarrow> int \<Rightarrow> bool" where
  "pluginVersionMinReject it2 pluginVersionMajor pluginVersionMinor =
     (pluginVersionMajor \<noteq> -1 \<and>
      pluginVersionMajorMin it2 \<noteq> -1 \<and>
      (pluginVersionMajor < pluginVersionMajorMin it2 \<or>
       (pluginVersionMinorMin it2 \<noteq> -1 \<and>
        pluginVersionMajor = pluginVersionMajorMin it2 \<and>
        pluginVersionMinor < pluginVersionMinorMin it2)))"

definition pluginVersionMaxReject :: "PluginMatch \<Rightarrow> int \<Rightarrow> int \<Rightarrow> bool" where
  "pluginVersionMaxReject it2 pluginVersionMajor pluginVersionMinor =
     (pluginVersionMajor \<noteq> -1 \<and>
      pluginVersionMajorMax it2 \<noteq> -1 \<and>
      (pluginVersionMajor > pluginVersionMajorMax it2 \<or>
       (pluginVersionMinorMax it2 \<noteq> -1 \<and>
        pluginVersionMajor = pluginVersionMajorMax it2 \<and>
        pluginVersionMinor > pluginVersionMinorMax it2)))"

text \<open>
  The inner loop over \<^verbatim>\<open>it->plugin\<close> (lines 607-632). It ends in one of three ways:
  a \<^verbatim>\<open>return false\<close> out of the whole function, or the end of the loop with
  \<^verbatim>\<open>matchPlugin\<close> true (after \<^verbatim>\<open>break\<close>) or false.
\<close>

datatype pluginScan = ReturnFalse | MatchPlugin bool

fun pluginLoop :: "PluginMatch list \<Rightarrow> string \<Rightarrow> int \<Rightarrow> int \<Rightarrow> pluginScan" where
  "pluginLoop [] pluginId pluginVersionMajor pluginVersionMinor = MatchPlugin False"
| "pluginLoop (it2 # rest) pluginId pluginVersionMajor pluginVersionMinor =
     (if \<not> PluginMatch.func it2 pluginId (pluginID it2)
      then pluginLoop rest pluginId pluginVersionMajor pluginVersionMinor
      else if pluginVersionMinReject it2 pluginVersionMajor pluginVersionMinor then ReturnFalse
      else if pluginVersionMaxReject it2 pluginVersionMajor pluginVersionMinor then ReturnFalse
      else MatchPlugin True)"

text \<open>The outer loop over \<^verbatim>\<open>filter.filters\<close> (lines 603-642).\<close>

fun knobMatchLoop :: "KnobMatch list \<Rightarrow> string \<Rightarrow> string \<Rightarrow> int \<Rightarrow> int \<Rightarrow> bool" where
  "knobMatchLoop [] name pluginId pluginVersionMajor pluginVersionMinor = False"
| "knobMatchLoop (it # rest) name pluginId pluginVersionMajor pluginVersionMinor =
     (if plugin it \<noteq> [] then
        (case pluginLoop (plugin it) pluginId pluginVersionMajor pluginVersionMinor of
           ReturnFalse \<Rightarrow> False
         | MatchPlugin False \<Rightarrow>
             knobMatchLoop rest name pluginId pluginVersionMajor pluginVersionMinor
         | MatchPlugin True \<Rightarrow>
             (if FilterMatcher.func (filter_m it) name (nameToMatch (filter_m it)) then True
              else knobMatchLoop rest name pluginId pluginVersionMajor pluginVersionMinor))
      else
        (if FilterMatcher.func (filter_m it) name (nameToMatch (filter_m it)) then True
         else knobMatchLoop rest name pluginId pluginVersionMajor pluginVersionMinor))"

text \<open>
  The template function itself. The \<^verbatim>\<open>assert\<close> is a branch of the model: a failed
  assertion is the value \<open>Inl AssertionFailed\<close>.
\<close>

definition matchKnobFilterInternal ::
  "'a KnobNameFilter_scheme \<Rightarrow> string \<Rightarrow> string \<Rightarrow> int \<Rightarrow> int \<Rightarrow> int \<Rightarrow> int \<Rightarrow> int \<Rightarrow> error + bool" where
  "matchKnobFilterInternal flt name pluginId pluginVersionMajor pluginVersionMinor
       natronVersionMajor natronVersionMinor natronVersionRevision =
     (if replacement flt = [] then Inl AssertionFailed
      else if natronVersionMinReject (natronVersionMin flt)
                natronVersionMajor natronVersionMinor natronVersionRevision then Inr False
      else if natronVersionMaxReject (natronVersionMax flt)
                natronVersionMajor natronVersionMinor natronVersionRevision then Inr False
      else if filters flt \<noteq> [] then
        Inr (knobMatchLoop (filters flt) name pluginId pluginVersionMajor pluginVersionMinor)
      else Inr True)"

section \<open>The two lookups\<close>

fun filterKnobNameCompat_loop ::
  "KnobNameFilter list \<Rightarrow> string \<Rightarrow> int \<Rightarrow> int \<Rightarrow> int \<Rightarrow> int \<Rightarrow> int \<Rightarrow> string \<Rightarrow> error + (bool \<times> string)" where
  "filterKnobNameCompat_loop [] pluginId pluginVersionMajor pluginVersionMinor
       natronVersionMajor natronVersionMinor natronVersionRevision name = Inr (False, name)"
| "filterKnobNameCompat_loop (flt # rest) pluginId pluginVersionMajor pluginVersionMinor
       natronVersionMajor natronVersionMinor natronVersionRevision name =
     (if replacement flt = [] then Inl AssertionFailed
      else
        (case matchKnobFilterInternal flt name pluginId pluginVersionMajor pluginVersionMinor
                natronVersionMajor natronVersionMinor natronVersionRevision of
           Inl e \<Rightarrow> Inl e
         | Inr False \<Rightarrow>
             filterKnobNameCompat_loop rest pluginId pluginVersionMajor pluginVersionMinor
               natronVersionMajor natronVersionMinor natronVersionRevision name
         | Inr True \<Rightarrow> Inr (True, replacement flt)))"

text \<open>
  The scan of \<^verbatim>\<open>filter.optionFilters\<close> (lines 679-684): the new value of
  \<^verbatim>\<open>*name\<close> when a pattern matches (the function then returns true), or \<open>None\<close>
  when the loop ends.
\<close>

fun optionFiltersLoop :: "FilterMatcher list \<Rightarrow> string \<Rightarrow> string \<Rightarrow> string option" where
  "optionFiltersLoop [] name repl = None"
| "optionFiltersLoop (it # rest) name repl =
     (if FilterMatcher.func it name (nameToMatch it) then Some repl
      else optionFiltersLoop rest name repl)"

fun filterKnobChoiceOptionCompat_loop ::
  "KnobChoiceOptionFilter list \<Rightarrow> string \<Rightarrow> int \<Rightarrow> int \<Rightarrow> int \<Rightarrow> int \<Rightarrow> int \<Rightarrow> string \<Rightarrow> string
     \<Rightarrow> error + (bool \<times> string)" where
  "filterKnobChoiceOptionCompat_loop [] pluginId pluginVersionMajor pluginVersionMinor
       natronVersionMajor natronVersionMinor natronVersionRevision paramName name = Inr (False, name)"
| "filterKnobChoiceOptionCompat_loop (flt # rest) pluginId pluginVersionMajor pluginVersionMinor
       natronVersionMajor natronVersionMinor natronVersionRevision paramName name =
     (if replacement flt = [] then Inl AssertionFailed
      else if optionFilters flt = [] then Inl AssertionFailed
      else
        (case matchKnobFilterInternal flt paramName pluginId pluginVersionMajor pluginVersionMinor
                natronVersionMajor natronVersionMinor natronVersionRevision of
           Inl e \<Rightarrow> Inl e
         | Inr True \<Rightarrow>
             (case optionFiltersLoop (optionFilters flt) name (replacement flt) of
                Some name' \<Rightarrow> Inr (True, name')
              | None \<Rightarrow>
                  filterKnobChoiceOptionCompat_loop rest pluginId pluginVersionMajor pluginVersionMinor
                    natronVersionMajor natronVersionMinor natronVersionRevision paramName name)
         | Inr False \<Rightarrow>
             filterKnobChoiceOptionCompat_loop rest pluginId pluginVersionMajor pluginVersionMinor
               natronVersionMajor natronVersionMinor natronVersionRevision paramName name))"

section \<open>The registries\<close>

text \<open>
  The replacement strings are built from macros of \<^verbatim>\<open>ofxNatron.h\<close> and
  \<^verbatim>\<open>Engine/ImagePlaneDesc.h\<close>, which are not part of the sources at hand. Their values
  are a parameter of the registries: a record with one field for each macro.
\<close>

record ofxNatronMacros =
  kNatronOfxParamProcessR :: string
  kNatronOfxParamProcessG :: string
  kNatronOfxParamProcessB :: string
  kNatronOfxParamProcessA :: string
  kNatronColorPlaneID :: string
  kNatronBackwardMotionVectorsPlaneID :: string
  kNatronForwardMotionVectorsPlaneID :: string
  kNatronDisparityLeftPlaneID :: string
  kNatronDisparityRightPlaneID :: string
  kNatronMotionComponentsLabel :: string
  kNatronDisparityComponentsLabel :: string

text \<open>
  The macros that stand alone as a replacement string. The others are concatenated with a
  literal, so the replacement built from them cannot be empty.
\<close>

definition macrosNonEmpty :: "ofxNatronMacros \<Rightarrow> bool" where
  "macrosNonEmpty K =
     (kNatronOfxParamProcessR K \<noteq> [] \<and> kNatronOfxParamProcessG K \<noteq> [] \<and>
      kNatronOfxParamProcessB K \<noteq> [] \<and> kNatronOfxParamProcessA K \<noteq> [] \<and>
      kNatronColorPlaneID K \<noteq> [])"

text \<open>The constructor \<^verbatim>\<open>NatronVersionMatch()\<close> and the values the setters store.\<close>

definition newNatronVersionMatch :: NatronVersionMatch where
  "newNatronVersionMatch = \<lparr>vMajor = -1, vMinor = -1, vRev = -1\<rparr>"

definition natronVersion :: "int \<Rightarrow> int \<Rightarrow> int \<Rightarrow> NatronVersionMatch" where
  "natronVersion major minor revision = \<lparr>vMajor = major, vMinor = minor, vRev = revision\<rparr>"

text \<open>
  The value \<^verbatim>\<open>addPluginMatch\<close> appends: the comparison is
  \<^verbatim>\<open>equalsStringCaseInsensitive\<close> unless the caller overwrites \<^verbatim>\<open>p.func\<close>.
\<close>

definition addPluginMatch :: "string \<Rightarrow> int \<Rightarrow> int \<Rightarrow> int \<Rightarrow> int \<Rightarrow> PluginMatch" where
  "addPluginMatch pluginId pluginMajorMin pluginMinorMin pluginMajorMax pluginMinorMax =
     \<lparr>pluginID = pluginId,
      pluginVersionMajorMin = pluginMajorMin, pluginVersionMinorMin = pluginMinorMin,
      pluginVersionMajorMax = pluginMajorMax, pluginVersionMinorMax = pluginMinorMax,
      func = equalsStringCaseInsensitive\<rparr>"

text \<open>\<^verbatim>\<open>PluginMatch& p = addPluginMatch(m, id); p.func = startsWith;\<close>\<close>

definition addPluginMatch_startsWith :: "string \<Rightarrow> PluginMatch" where
  "addPluginMatch_startsWith pluginId =
     (addPluginMatch pluginId (-1) (-1) (-1) (-1))\<lparr>PluginMatch.func := startsWith\<rparr>"

text \<open>The value \<^verbatim>\<open>addKnobFilter\<close> appends, with the plug-ins added to it afterwards.\<close>

definition addKnobFilter :: "string \<Rightarrow> stringFuncPtr \<Rightarrow> PluginMatch list \<Rightarrow> KnobMatch" where
  "addKnobFilter name f plugins =
     \<lparr>plugin = plugins, filter_m = \<lparr>nameToMatch = name, func = f\<rparr>\<rparr>"

definition addOptionFilter :: "string \<Rightarrow> stringFuncPtr \<Rightarrow> FilterMatcher" where
  "addOptionFilter name f = \<lparr>nameToMatch = name, func = f\<rparr>"

text \<open>The four rules of \<^verbatim>\<open>KnobNameFilters\<close> (lines 226-340), in the order pushed.\<close>

definition knobNameFilters :: "ofxNatronMacros \<Rightarrow> KnobNameFilter list" where
  "knobNameFilters K =
     [\<lparr>filters =
         [addKnobFilter ''r'' equalsStringCaseSensitive
            [addPluginMatch_startsWith ''fr.inria.'', addPluginMatch_startsWith ''net.sf.openfx.''],
          addKnobFilter ''doRed'' equalsStringCaseSensitive
            [addPluginMatch_startsWith ''fr.inria.'', addPluginMatch_startsWith ''net.sf.openfx.'']],
       replacement = kNatronOfxParamProcessR K,
       natronVersionMin = newNatronVersionMatch,
       natronVersionMax = natronVersion 2 2 99\<rparr>,
      \<lparr>filters =
         [addKnobFilter ''g'' equalsStringCaseSensitive
            [addPluginMatch_startsWith ''fr.inria.'', addPluginMatch_startsWith ''net.sf.openfx.''],
          addKnobFilter ''doGreen'' equalsStringCaseSensitive
            [addPluginMatch_startsWith ''fr.inria.'', addPluginMatch_startsWith ''net.sf.openfx.'']],
       replacement = kNatronOfxParamProcessG K,
       natronVersionMin = newNatronVersionMatch,
       natronVersionMax = natronVersion 2 2 99\<rparr>,
      \<lparr>filters =
         [addKnobFilter ''b'' equalsStringCaseSensitive
            [addPluginMatch_startsWith ''fr.inria.'', addPluginMatch_startsWith ''net.sf.openfx.''],
          addKnobFilter ''doBlue'' equalsStringCaseSensitive
            [addPluginMatch_startsWith ''fr.inria.'', addPluginMatch_startsWith ''net.sf.openfx.'']],
       replacement = kNatronOfxParamProcessB K,
       natronVersionMin = newNatronVersionMatch,
       natronVersionMax = natronVersion 2 2 99\<rparr>,
      \<lparr>filters =
         [addKnobFilter ''a'' equalsStringCaseSensitive
            [addPluginMatch_startsWith ''fr.inria.'', addPluginMatch_startsWith ''net.sf.openfx.''],
          addKnobFilter ''doAlpha'' equalsStringCaseSensitive
            [addPluginMatch_startsWith ''fr.inria.'', addPluginMatch_startsWith ''net.sf.openfx.'']],
       replacement = kNatronOfxParamProcessA K,
       natronVersionMin = newNatronVersionMatch,
       natronVersionMax = natronVersion 2 2 99\<rparr>]"

text \<open>
  The name alternatives shared by the first five option rules (lines 351-400), and the
  rule \<^verbatim>\<open>channelsFilterBase\<close> (lines 402-434) that the twelve channel rules copy.
\<close>

definition planeKnobFilters :: "KnobMatch list" where
  "planeKnobFilters =
     [addKnobFilter ''outputChannels'' equalsStringCaseSensitive [],
      addKnobFilter ''channels'' endsWith []]"

definition channelsFilterBase :: KnobChoiceOptionFilter where
  "channelsFilterBase =
     \<lparr>filters =
        [addKnobFilter ''maskChannel'' startsWith [],
         addKnobFilter ''premultChannel'' equalsStringCaseSensitive [],
         addKnobFilter ''channelU'' equalsStringCaseSensitive
           [addPluginMatch ''net.sf.openfx.IDistort'' (-1) (-1) (-1) (-1),
            addPluginMatch ''net.sf.openfx.STMap'' (-1) (-1) (-1) (-1)],
         addKnobFilter ''channelV'' equalsStringCaseSensitive
           [addPluginMatch ''net.sf.openfx.IDistort'' (-1) (-1) (-1) (-1),
            addPluginMatch ''net.sf.openfx.STMap'' (-1) (-1) (-1) (-1)],
         addKnobFilter ''outputR'' equalsStringCaseSensitive
           [addPluginMatch ''net.sf.openfx.ShufflePlugin'' 2 (-1) (-1) (-1)],
         addKnobFilter ''outputG'' equalsStringCaseSensitive
           [addPluginMatch ''net.sf.openfx.ShufflePlugin'' 2 (-1) (-1) (-1)],
         addKnobFilter ''outputB'' equalsStringCaseSensitive
           [addPluginMatch ''net.sf.openfx.ShufflePlugin'' 2 (-1) (-1) (-1)],
         addKnobFilter ''outputA'' equalsStringCaseSensitive
           [addPluginMatch ''net.sf.openfx.ShufflePlugin'' 2 (-1) (-1) (-1)]],
      replacement = [],
      natronVersionMin = newNatronVersionMatch,
      natronVersionMax = natronVersion 2 2 99,
      optionFilters = []\<rparr>"

text \<open>
  A copy of \<^verbatim>\<open>channelsFilterBase\<close> with its option patterns added and its replacement
  set (lines 435-518).
\<close>

definition channelsFilter :: "string list \<Rightarrow> string \<Rightarrow> KnobChoiceOptionFilter" where
  "channelsFilter options repl =
     channelsFilterBase
       \<lparr>replacement := repl,
        optionFilters := map (\<lambda>name. addOptionFilter name equalsStringCaseInsensitive) options\<rparr>"

text \<open>The twenty rules of \<^verbatim>\<open>KnobChoiceOptionFilters\<close> (lines 349-561), in the order pushed.\<close>

definition knobChoiceOptionFilters :: "ofxNatronMacros \<Rightarrow> KnobChoiceOptionFilter list" where
  "knobChoiceOptionFilters K =
     [\<lparr>filters = planeKnobFilters,
       replacement = kNatronColorPlaneID K,
       natronVersionMin = newNatronVersionMatch,
       natronVersionMax = natronVersion 2 2 99,
       optionFilters =
         [addOptionFilter ''RGBA'' equalsStringCaseInsensitive,
          addOptionFilter ''RGB'' equalsStringCaseInsensitive,
          addOptionFilter ''Alpha'' equalsStringCaseInsensitive,
          addOptionFilter ''Color.RGBA'' equalsStringCaseInsensitive,
          addOptionFilter ''Color.RGB'' equalsStringCaseInsensitive,
          addOptionFilter ''Color.Alpha'' equalsStringCaseInsensitive]\<rparr>,
      \<lparr>filters = planeKnobFilters,
       replacement = kNatronBackwardMotionVectorsPlaneID K @ ''.'' @ kNatronMotionComponentsLabel K,
       natronVersionMin = newNatronVersionMatch,
       natronVersionMax = natronVersion 2 2 99,
       optionFilters = [addOptionFilter ''Backward.Motion'' equalsStringCaseInsensitive]\<rparr>,
      \<lparr>filters = planeKnobFilters,
       replacement = kNatronForwardMotionVectorsPlaneID K @ ''.'' @ kNatronMotionComponentsLabel K,
       natronVersionMin = newNatronVersionMatch,
       natronVersionMax = natronVersion 2 2 99,
       optionFilters = [addOptionFilter ''Forward.Motion'' equalsStringCaseInsensitive]\<rparr>,
      \<lparr>filters = planeKnobFilters,
       replacement = kNatronDisparityLeftPlaneID K @ ''.'' @ kNatronDisparityComponentsLabel K,
       natronVersionMin = newNatronVersionMatch,
       natronVersionMax = natronVersion 2 2 99,
       optionFilters = [addOptionFilter ''DisparityLeft.Disparity'' equalsStringCaseInsensitive]\<rparr>,
      \<lparr>filters = planeKnobFilters,
       replacement = kNatronDisparityRightPlaneID K @ ''.'' @ kNatronDisparityComponentsLabel K,
       natronVersionMin = newNatronVersionMatch,
       natronVersionMax = natronVersion 2 2 99,
       optionFilters = [addOptionFilter ''DisparityRight.Disparity'' equalsStringCaseInsensitive]\<rparr>,
      channelsFilter [''RGBA.R'', ''UV.r'', ''red'', ''r''] (kNatronColorPlaneID K @ ''.R''),
      channelsFilter [''RGBA.G'', ''UV.g'', ''green'', ''g''] (kNatronColorPlaneID K @ ''.G''),
      channelsFilter [''RGBA.B'', ''UV.b'', ''blue'', ''b''] (kNatronColorPlaneID K @ ''.B''),
      channelsFilter [''RGBA.A'', ''UV.a'', ''alpha'', ''a''] (kNatronColorPlaneID K @ ''.A''),
      channelsFilter [''A.r''] (''A.'' @ kNatronColorPlaneID K @ ''.R''),
      channelsFilter [''A.g''] (''A.'' @ kNatronColorPlaneID K @ ''.G''),
      channelsFilter [''A.b''] (''A.'' @ kNatronColorPlaneID K @ ''.b''),
      channelsFilter [''A.a''] (''A.'' @ kNatronColorPlaneID K @ ''.A''),
      channelsFilter [''B.r''] (''B.'' @ kNatronColorPlaneID K @ ''.R''),
      channelsFilter [''B.g''] (''B.'' @ kNatronColorPlaneID K @ ''.G''),
      channelsFilter [''B.b''] (''B.'' @ kNatronColorPlaneID K @ ''.B''),
      channelsFilter [''B.a''] (''B.'' @ kNatronColorPlaneID K @ ''.A''),
      \<lparr>filters =
         [addKnobFilter ''frameRange'' equalsStringCaseSensitive
            [addPluginMatch_startsWith ''fr.inria.'']],
       replacement = ''project'',
       natronVersionMin = newNatronVersionMatch,
       natronVersionMax = natronVersion 1 (-1) (-1),
       optionFilters = [addOptionFilter ''Timeline bounds'' equalsStringCaseInsensitive]\<rparr>,
      \<lparr>filters =
         [addKnobFilter ''bitDepth'' equalsStringCaseSensitive
            [addPluginMatch_startsWith ''fr.inria.'']],
       replacement = ''8u'',
       natronVersionMin = newNatronVersionMatch,
       natronVersionMax = newNatronVersionMatch,
       optionFilters = [addOptionFilter ''8i'' equalsStringCaseInsensitive]\<rparr>,
      \<lparr>filters =
         [addKnobFilter ''bitDepth'' equalsStringCaseSensitive
            [addPluginMatch_startsWith ''fr.inria.'']],
       replacement = ''16u'',
       natronVersionMin = newNatronVersionMatch,
       natronVersionMax = newNatronVersionMatch,
       optionFilters = [addOptionFilter ''16i'' equalsStringCaseInsensitive]\<rparr>]"

text \<open>The two exported functions: the loops over the two static registries.\<close>

definition filterKnobNameCompat ::
  "ofxNatronMacros \<Rightarrow> string \<Rightarrow> int \<Rightarrow> int \<Rightarrow> int \<Rightarrow> int \<Rightarrow> int \<Rightarrow> string \<Rightarrow> error + (bool \<times> string)" where
  "filterKnobNameCompat K pluginId pluginVersionMajor pluginVersionMinor
       natronVersionMajor natronVersionMinor natronVersionRevision name =
     filterKnobNameCompat_loop (knobNameFilters K) pluginId pluginVersionMajor pluginVersionMinor
       natronVersionMajor natronVersionMinor natronVersionRevision name"

definition filterKnobChoiceOptionCompat ::
  "ofxNatronMacros \<Rightarrow> string \<Rightarrow> int \<Rightarrow> int \<Rightarrow> int \<Rightarrow> int \<Rightarrow> int \<Rightarrow> string \<Rightarrow> string
     \<Rightarrow> error + (bool \<times> string)" where
  "filterKnobChoiceOptionCompat K pluginId pluginVersionMajor pluginVersionMinor
       natronVersionMajor natronVersionMinor natronVersionRevision paramName name =
     filterKnobChoiceOptionCompat_loop (knobChoiceOptionFilters K) pluginId
       pluginVersionMajor pluginVersionMinor
       natronVersionMajor natronVersionMinor natronVersionRevision paramName name"

text \<open>
  Sample values for the macros, used where a theorem is run on a concrete call. No
  theorem depends on them: every general statement holds for all values of the macros.
\<close>

definition sampleMacros :: ofxNatronMacros where
  "sampleMacros =
     \<lparr>kNatronOfxParamProcessR = ''NatronOfxParamProcessR'',
      kNatronOfxParamProcessG = ''NatronOfxParamProcessG'',
      kNatronOfxParamProcessB = ''NatronOfxParamProcessB'',
      kNatronOfxParamProcessA = ''NatronOfxParamProcessA'',
      kNatronColorPlaneID = ''Color'',
      kNatronBackwardMotionVectorsPlaneID = ''Backward'',
      kNatronForwardMotionVectorsPlaneID = ''Forward'',
      kNatronDisparityLeftPlaneID = ''DisparityLeft'',
      kNatronDisparityRightPlaneID = ''DisparityRight'',
      kNatronMotionComponentsLabel = ''Motion'',
      kNatronDisparityComponentsLabel = ''Disparity''\<rparr>"

section \<open>Rules with version constraints removed\<close>

text \<open>
  What "the constraint on a field is disabled" means, for comparison with the lookups: the
  rule with its host bounds removed altogether, or opened from the minor field on, or
  opened at the revision field; and the rule with the version range of every plug-in
  constraint removed, or opened at the minor field. A field of a bound that is -1 takes
  that field and every finer one out of the comparison.
\<close>

definition minorRemoved :: "NatronVersionMatch \<Rightarrow> NatronVersionMatch" where
  "minorRemoved v = v\<lparr>vMinor := -1, vRev := -1\<rparr>"

definition revisionRemoved :: "NatronVersionMatch \<Rightarrow> NatronVersionMatch" where
  "revisionRemoved v = v\<lparr>vRev := -1\<rparr>"

definition hostRangeRemoved :: "'a KnobNameFilter_scheme \<Rightarrow> 'a KnobNameFilter_scheme" where
  "hostRangeRemoved f =
     f\<lparr>natronVersionMin := newNatronVersionMatch, natronVersionMax := newNatronVersionMatch\<rparr>"

definition hostMinorRemoved :: "'a KnobNameFilter_scheme \<Rightarrow> 'a KnobNameFilter_scheme" where
  "hostMinorRemoved f =
     f\<lparr>natronVersionMin := minorRemoved (natronVersionMin f),
       natronVersionMax := minorRemoved (natronVersionMax f)\<rparr>"

definition hostRevisionRemoved :: "'a KnobNameFilter_scheme \<Rightarrow> 'a KnobNameFilter_scheme" where
  "hostRevisionRemoved f =
     f\<lparr>natronVersionMin := revisionRemoved (natronVersionMin f),
       natronVersionMax := revisionRemoved (natronVersionMax f)\<rparr>"

definition mapPlugins ::
  "(PluginMatch \<Rightarrow> PluginMatch) \<Rightarrow> 'a KnobNameFilter_scheme \<Rightarrow> 'a KnobNameFilter_scheme" where
  "mapPlugins g f = f\<lparr>filters := map (\<lambda>m. m\<lparr>plugin := map g (plugin m)\<rparr>) (filters f)\<rparr>"

definition pluginRangeRemoved :: "PluginMatch \<Rightarrow> PluginMatch" where
  "pluginRangeRemoved p =
     p\<lparr>pluginVersionMajorMin := -1, pluginVersionMinorMin := -1,
       pluginVersionMajorMax := -1, pluginVersionMinorMax := -1\<rparr>"

definition pluginMinorRemoved :: "PluginMatch \<Rightarrow> PluginMatch" where
  "pluginMinorRemoved p = p\<lparr>pluginVersionMinorMin := -1, pluginVersionMinorMax := -1\<rparr>"

section \<open>The plug-in gate as the specification words it\<close>

text \<open>
  The plug-in gate in the words of the specification (section 4.3), for comparison with
  the loops above: a constraint holds when its identifier comparison succeeds on the
  plug-in identifier and the plug-in version is within its range; a gate passes when the
  list of constraints is empty or some constraint holds; a rule's alternatives match when
  some alternative has its gate passed and its name comparison succeed.
\<close>

definition pluginConstraint_spec :: "PluginMatch \<Rightarrow> string \<Rightarrow> int \<Rightarrow> int \<Rightarrow> bool" where
  "pluginConstraint_spec p pluginId pluginVersionMajor pluginVersionMinor =
     (PluginMatch.func p pluginId (pluginID p) \<and>
      \<not> pluginVersionMinReject p pluginVersionMajor pluginVersionMinor \<and>
      \<not> pluginVersionMaxReject p pluginVersionMajor pluginVersionMinor)"

definition pluginGate_spec :: "PluginMatch list \<Rightarrow> string \<Rightarrow> int \<Rightarrow> int \<Rightarrow> bool" where
  "pluginGate_spec ps pluginId pluginVersionMajor pluginVersionMinor =
     (ps = [] \<or> list_ex (\<lambda>p. pluginConstraint_spec p pluginId pluginVersionMajor pluginVersionMinor) ps)"

definition knobMatch_spec :: "KnobMatch list \<Rightarrow> string \<Rightarrow> string \<Rightarrow> int \<Rightarrow> int \<Rightarrow> bool" where
  "knobMatch_spec ms name pluginId pluginVersionMajor pluginVersionMinor =
     list_ex (\<lambda>m. pluginGate_spec (plugin m) pluginId pluginVersionMajor pluginVersionMinor \<and>
                 FilterMatcher.func (filter_m m) name (nameToMatch (filter_m m))) ms"

text \<open>A plug-in constraint without a version range: both major bounds are -1.\<close>

definition unranged :: "PluginMatch \<Rightarrow> bool" where
  "unranged p = (pluginVersionMajorMin p = -1 \<and> pluginVersionMajorMax p = -1)"

text \<open>
  A rule with the constraint list of each alternative permuted: the same name comparison
  and the same constraints as a multiset, alternative by alternative, and everything else
  of the rule unchanged. The reversal of every constraint list is one such rule.
\<close>

definition permutedConstraints :: "KnobMatch \<Rightarrow> KnobMatch \<Rightarrow> bool" where
  "permutedConstraints m m' =
     (filter_m m' = filter_m m \<and> mset (plugin m') = mset (plugin m))"

definition permutedRule :: "'a KnobNameFilter_scheme \<Rightarrow> 'a KnobNameFilter_scheme \<Rightarrow> bool" where
  "permutedRule f f' =
     (replacement f' = replacement f \<and>
      natronVersionMin f' = natronVersionMin f \<and>
      natronVersionMax f' = natronVersionMax f \<and>
      KnobNameFilter.more f' = KnobNameFilter.more f \<and>
      list_all2 permutedConstraints (filters f) (filters f'))"

definition reverseConstraints :: "'a KnobNameFilter_scheme \<Rightarrow> 'a KnobNameFilter_scheme" where
  "reverseConstraints f = f\<lparr>filters := map (\<lambda>m. m\<lparr>plugin := rev (plugin m)\<rparr>) (filters f)\<rparr>"

text \<open>
  matchKnobFilterInternal with the gate of the specification in the place of its loops.
\<close>

definition matchKnobFilter_spec ::
  "'a KnobNameFilter_scheme \<Rightarrow> string \<Rightarrow> string \<Rightarrow> int \<Rightarrow> int \<Rightarrow> int \<Rightarrow> int \<Rightarrow> int \<Rightarrow> error + bool" where
  "matchKnobFilter_spec flt name pluginId pluginVersionMajor pluginVersionMinor
       natronVersionMajor natronVersionMinor natronVersionRevision =
     (if replacement flt = [] then Inl AssertionFailed
      else if natronVersionMinReject (natronVersionMin flt)
                natronVersionMajor natronVersionMinor natronVersionRevision then Inr False
      else if natronVersionMaxReject (natronVersionMax flt)
                natronVersionMajor natronVersionMinor natronVersionRevision then Inr False
      else if filters flt \<noteq> [] then
        Inr (knobMatch_spec (filters flt) name pluginId pluginVersionMajor pluginVersionMinor)
      else Inr True)"

text \<open>
  The shape of the alternatives of a rule on which the loops are shown to agree with the
  gate of the specification: alternatives whose constraints carry no version range,
  followed by alternatives that all hold one and the same single constraint.
\<close>

definition gateShape :: "KnobMatch list \<Rightarrow> bool" where
  "gateShape ms =
     (\<exists>ms1 ms2 p. ms = ms1 @ ms2 \<and>
        (\<forall>m\<in>set ms1. \<forall>q\<in>set (plugin m). unranged q) \<and>
        (\<forall>m\<in>set ms2. plugin m = [p]))"

section \<open>Version ranges\<close>

text \<open>
  C8. For every version range whose upper-bound major field is unbounded (-1), the
  upper-bound check rejects no candidate, whatever the candidate's and the bound's minor
  and revision fields are. This holds for the host-version range of a rule and for the
  version range of a plug-in constraint.
\<close>

theorem unbounded_upper_major_rejects_nothing:
  "(vMajor mx = -1 \<longrightarrow> \<not> natronVersionMaxReject mx major minor revision) \<and>
   (pluginVersionMajorMax p = -1 \<longrightarrow> \<not> pluginVersionMaxReject p major minor)"
  by (simp add: natronVersionMaxReject_def pluginVersionMaxReject_def)

theorem unbounded_upper_major_rejects_nothing_witness:
  "\<not> natronVersionMaxReject \<lparr>vMajor = -1, vMinor = 0, vRev = 0\<rparr> 7 5 3 \<and>
   \<not> pluginVersionMaxReject
       \<lparr>pluginID = ''net.sf.openfx.STMap'', pluginVersionMajorMin = 2, pluginVersionMinorMin = 0,
        pluginVersionMajorMax = -1, pluginVersionMinorMax = 0,
        func = equalsStringCaseInsensitive\<rparr> 7 5"
  using unbounded_upper_major_rejects_nothing
    [where mx = "\<lparr>vMajor = -1, vMinor = 0, vRev = 0\<rparr>"
       and p = "\<lparr>pluginID = ''net.sf.openfx.STMap'', pluginVersionMajorMin = 2,
                pluginVersionMinorMin = 0, pluginVersionMajorMax = -1, pluginVersionMinorMax = 0,
                func = equalsStringCaseInsensitive\<rparr>"
       and major = 7 and minor = 5 and revision = 3]
  by simp

section \<open>Properties of the loops, for any registry\<close>

lemma match_Inr_replacement:
  "matchKnobFilterInternal f name pid a b c d e = Inr r \<Longrightarrow> replacement f \<noteq> []"
  by (auto simp: matchKnobFilterInternal_def split: if_splits)

lemma match_not_Inl:
  "replacement f \<noteq> [] \<Longrightarrow> \<exists>r. matchKnobFilterInternal f name pid a b c d e = Inr r"
  by (auto simp: matchKnobFilterInternal_def)

lemma name_loop_first_match:
  assumes "\<forall>g\<in>set pre. matchKnobFilterInternal g name pid a b c d e = Inr False"
      and "matchKnobFilterInternal f name pid a b c d e = Inr True"
  shows "filterKnobNameCompat_loop (pre @ f # post) pid a b c d e name = Inr (True, replacement f)"
  using assms
proof (induction pre)
  case Nil
  then show ?case by (auto dest: match_Inr_replacement)
next
  case (Cons g pre)
  then show ?case by (auto dest: match_Inr_replacement)
qed

lemma name_loop_no_match:
  assumes "\<forall>g\<in>set reg. matchKnobFilterInternal g name pid a b c d e = Inr False"
  shows "filterKnobNameCompat_loop reg pid a b c d e name = Inr (False, name)"
  using assms by (induction reg) (auto dest: match_Inr_replacement)

lemma name_loop_outcome:
  assumes "\<forall>g\<in>set reg. replacement g \<noteq> []"
  shows "filterKnobNameCompat_loop reg pid a b c d e name = Inr (False, name) \<or>
         (\<exists>f\<in>set reg. filterKnobNameCompat_loop reg pid a b c d e name = Inr (True, replacement f))"
  using assms
proof (induction reg)
  case Nil then show ?case by simp
next
  case (Cons g reg)
  obtain r where r: "matchKnobFilterInternal g name pid a b c d e = Inr r"
    using Cons.prems match_not_Inl[of g] by fastforce
  show ?case
  proof (cases r)
    case True
    with r Cons.prems show ?thesis by simp
  next
    case False
    with r Cons show ?thesis by auto
  qed
qed

lemma optionFiltersLoop_eq:
  "optionFiltersLoop pats v r =
     (if \<exists>pat\<in>set pats. FilterMatcher.func pat v (nameToMatch pat) then Some r else None)"
  by (induction pats) auto

lemma option_loop_step:
  assumes "\<forall>g\<in>set pre. replacement g \<noteq> [] \<and> optionFilters g \<noteq> [] \<and>
             (matchKnobFilterInternal g paramName pid a b c d e = Inr False \<or>
              \<not> (\<exists>pat\<in>set (optionFilters g). FilterMatcher.func pat v (nameToMatch pat)))"
      and "optionFilters f \<noteq> []"
      and "matchKnobFilterInternal f paramName pid a b c d e = Inr True"
  shows "filterKnobChoiceOptionCompat_loop (pre @ f # post) pid a b c d e paramName v =
           (if \<exists>pat\<in>set (optionFilters f). FilterMatcher.func pat v (nameToMatch pat)
            then Inr (True, replacement f)
            else filterKnobChoiceOptionCompat_loop post pid a b c d e paramName v)"
  using assms
proof (induction pre)
  case Nil
  then show ?case by (auto simp: optionFiltersLoop_eq dest: match_Inr_replacement)
next
  case (Cons g pre)
  obtain r where r: "matchKnobFilterInternal g paramName pid a b c d e = Inr r"
    using Cons.prems match_not_Inl[of g] by fastforce
  have IH: "filterKnobChoiceOptionCompat_loop (pre @ f # post) pid a b c d e paramName v =
           (if \<exists>pat\<in>set (optionFilters f). FilterMatcher.func pat v (nameToMatch pat)
            then Inr (True, replacement f)
            else filterKnobChoiceOptionCompat_loop post pid a b c d e paramName v)"
    using Cons by simp
  have g: "replacement g \<noteq> []" "optionFilters g \<noteq> []"
     "r = False \<or> \<not> (\<exists>pat\<in>set (optionFilters g). FilterMatcher.func pat v (nameToMatch pat))"
    using Cons.prems r by auto
  show ?case
  proof (cases r)
    case True
    with g have "optionFiltersLoop (optionFilters g) v (replacement g) = None"
      by (simp add: optionFiltersLoop_eq)
    with True r g IH show ?thesis by simp
  next
    case False
    with r g IH show ?thesis by simp
  qed
qed

lemma option_loop_outcome:
  assumes "\<forall>g\<in>set reg. replacement g \<noteq> [] \<and> optionFilters g \<noteq> []"
  shows "filterKnobChoiceOptionCompat_loop reg pid a b c d e paramName v = Inr (False, v) \<or>
         (\<exists>f\<in>set reg. filterKnobChoiceOptionCompat_loop reg pid a b c d e paramName v = Inr (True, replacement f))"
  using assms
proof (induction reg)
  case Nil then show ?case by simp
next
  case (Cons g reg)
  obtain r where r: "matchKnobFilterInternal g paramName pid a b c d e = Inr r"
    using Cons.prems match_not_Inl[of g] by fastforce
  show ?case
  proof (cases "r \<and> (\<exists>pat\<in>set (optionFilters g). FilterMatcher.func pat v (nameToMatch pat))")
    case True
    with r Cons.prems show ?thesis by (simp add: optionFiltersLoop_eq)
  next
    case False
    then have "filterKnobChoiceOptionCompat_loop (g # reg) pid a b c d e paramName v
       = filterKnobChoiceOptionCompat_loop reg pid a b c d e paramName v"
      using r Cons.prems by (cases r) (auto simp: optionFiltersLoop_eq)
    with Cons show ?thesis by auto
  qed
qed

lemma option_loop_no_match:
  assumes "\<forall>g\<in>set reg. optionFilters g \<noteq> [] \<and> matchKnobFilterInternal g paramName pid a b c d e = Inr False"
  shows "filterKnobChoiceOptionCompat_loop reg pid a b c d e paramName v = Inr (False, v)"
  using assms by (induction reg) (auto dest: match_Inr_replacement)

lemma iequals_map: "iequals s t \<longleftrightarrow> map to_upper s = map to_upper t"
  by (induction s t rule: iequals.induct) auto

lemma pluginLoop_case:
  assumes "map to_upper p1 = map to_upper p2"
      and "\<forall>p\<in>set ps. PluginMatch.func p = equalsStringCaseInsensitive"
  shows "pluginLoop ps p1 a b = pluginLoop ps p2 a b"
  using assms by (induction ps) (auto simp: equalsStringCaseInsensitive_def iequals_map)

lemma knobMatchLoop_case:
  assumes "map to_upper p1 = map to_upper p2"
      and "\<forall>m\<in>set ms. \<forall>p\<in>set (plugin m). PluginMatch.func p = equalsStringCaseInsensitive"
  shows "knobMatchLoop ms name p1 a b = knobMatchLoop ms name p2 a b"
  using assms
proof (induction ms)
  case Nil then show ?case by simp
next
  case (Cons m ms)
  have pl: "pluginLoop (plugin m) p1 a b = pluginLoop (plugin m) p2 a b"
    using Cons.prems by (intro pluginLoop_case) auto
  have IH: "knobMatchLoop ms name p1 a b = knobMatchLoop ms name p2 a b"
    using Cons by simp
  show ?case unfolding knobMatchLoop.simps pl IH ..
qed

lemma match_case:
  assumes "map to_upper p1 = map to_upper p2"
      and "\<forall>m\<in>set (filters f). \<forall>p\<in>set (plugin m). PluginMatch.func p = equalsStringCaseInsensitive"
  shows "matchKnobFilterInternal f name p1 a b c d e = matchKnobFilterInternal f name p2 a b c d e"
  unfolding matchKnobFilterInternal_def knobMatchLoop_case[OF assms] ..

lemma option_loop_none:
  assumes "\<forall>g\<in>set reg. replacement g \<noteq> [] \<and> optionFilters g \<noteq> [] \<and>
             (matchKnobFilterInternal g paramName pid a b c d e = Inr False \<or>
              \<not> (\<exists>pat\<in>set (optionFilters g). FilterMatcher.func pat v (nameToMatch pat)))"
  shows "filterKnobChoiceOptionCompat_loop reg pid a b c d e paramName v = Inr (False, v)"
  using assms
proof (induction reg)
  case Nil then show ?case by simp
next
  case (Cons g reg)
  obtain r where r: "matchKnobFilterInternal g paramName pid a b c d e = Inr r"
    using Cons.prems match_not_Inl[of g] by fastforce
  have "filterKnobChoiceOptionCompat_loop (g # reg) pid a b c d e paramName v
       = filterKnobChoiceOptionCompat_loop reg pid a b c d e paramName v"
    using r Cons.prems by (cases r) (auto simp: optionFiltersLoop_eq)
  with Cons show ?case by simp
qed

lemma knobMatchLoop_no_name:
  assumes "\<forall>m\<in>set ms. \<not> FilterMatcher.func (filter_m m) name (nameToMatch (filter_m m))"
  shows "\<not> knobMatchLoop ms name pid a b"
  using assms by (induction ms) (auto split: pluginScan.splits bool.splits)

lemma match_no_name:
  assumes "replacement f \<noteq> []" "filters f \<noteq> []"
      and "\<forall>m\<in>set (filters f). \<not> FilterMatcher.func (filter_m m) name (nameToMatch (filter_m m))"
  shows "matchKnobFilterInternal f name pid a b c d e = Inr False"
  using assms knobMatchLoop_no_name[of "filters f" name pid a b]
  by (auto simp: matchKnobFilterInternal_def)

section \<open>Properties of the two registries\<close>

lemmas registry_defs =
  knobNameFilters_def knobChoiceOptionFilters_def channelsFilter_def channelsFilterBase_def
  planeKnobFilters_def addKnobFilter_def addOptionFilter_def addPluginMatch_def
  addPluginMatch_startsWith_def newNatronVersionMatch_def natronVersion_def

lemmas match_defs =
  matchKnobFilterInternal_def natronVersionMinReject_def natronVersionMaxReject_def
  pluginVersionMinReject_def pluginVersionMaxReject_def

lemmas string_defs =
  startsWith_def endsWith_def equalsStringCaseSensitive_def equalsStringCaseInsensitive_def
  to_upper_def

lemma knobNameFilters_wf:
  "macrosNonEmpty K \<Longrightarrow> \<forall>f\<in>set (knobNameFilters K). replacement f \<noteq> [] \<and> filters f \<noteq> []"
  by (simp add: macrosNonEmpty_def registry_defs)

lemma knobChoiceOptionFilters_wf:
  "kNatronColorPlaneID K \<noteq> [] \<Longrightarrow>
   \<forall>f\<in>set (knobChoiceOptionFilters K).
      replacement f \<noteq> [] \<and> filters f \<noteq> [] \<and> optionFilters f \<noteq> []"
  by (simp add: registry_defs)

lemma sampleMacros_nonEmpty: "macrosNonEmpty sampleMacros"
  by (simp add: macrosNonEmpty_def sampleMacros_def)

lemma channelsFilter_sel:
  "replacement (channelsFilter opts repl) = repl"
  "filters (channelsFilter opts repl) = filters channelsFilterBase"
  "natronVersionMin (channelsFilter opts repl) = newNatronVersionMatch"
  "natronVersionMax (channelsFilter opts repl) = natronVersion 2 2 99"
  "optionFilters (channelsFilter opts repl) =
     map (\<lambda>name. addOptionFilter name equalsStringCaseInsensitive) opts"
  by (simp_all add: channelsFilter_def channelsFilterBase_def)

lemma channels_red:
  assumes ne: "kNatronColorPlaneID K \<noteq> []"
  shows "filterKnobChoiceOptionCompat K pid a b c d e ''channels'' ''red'' = Inr (False, ''red'')"
proof -
  have ch: "\<And>opts repl. repl \<noteq> [] \<Longrightarrow>
     matchKnobFilterInternal (channelsFilter opts repl) ''channels'' pid a b c d e = Inr False"
    by (rule match_no_name) (simp_all add: channelsFilter_sel registry_defs string_defs)
  have last3: "\<And>nm rp mx opts. rp \<noteq> [] \<Longrightarrow> nm \<noteq> ''channels'' \<Longrightarrow> matchKnobFilterInternal
      \<lparr>filters = [addKnobFilter nm equalsStringCaseSensitive [addPluginMatch_startsWith ''fr.inria.'']],
        replacement = rp, natronVersionMin = newNatronVersionMatch, natronVersionMax = mx,
        optionFilters = opts\<rparr> ''channels'' pid a b c d e = Inr False"
    by (rule match_no_name) (auto simp: addKnobFilter_def equalsStringCaseSensitive_def)
  show ?thesis
    unfolding filterKnobChoiceOptionCompat_def
    by (rule option_loop_none)
       (simp add: knobChoiceOptionFilters_def ne ch last3 channelsFilter_sel addOptionFilter_def
          equalsStringCaseInsensitive_def to_upper_def)
qed

lemma maskChannel_red:
  assumes "kNatronColorPlaneID K \<noteq> []"
      and "startsWith paramName ''maskChannel''"
      and "\<not> natronVersionMaxReject (natronVersion 2 2 99) c d e"
  shows "filterKnobChoiceOptionCompat K pid a b c d e paramName ''red''
           = Inr (True, kNatronColorPlaneID K @ ''.R'')"
proof -
  let ?f = "channelsFilter [''RGBA.R'', ''UV.r'', ''red'', ''r''] (kNatronColorPlaneID K @ ''.R'')"
  let ?pre = "take 5 (knobChoiceOptionFilters K)"
  let ?post = "drop 6 (knobChoiceOptionFilters K)"
  have split: "knobChoiceOptionFilters K = ?pre @ ?f # ?post"
    by (simp add: knobChoiceOptionFilters_def)
  have pre: "\<forall>g\<in>set ?pre. replacement g \<noteq> [] \<and> optionFilters g \<noteq> [] \<and>
             (matchKnobFilterInternal g paramName pid a b c d e = Inr False \<or>
              \<not> (\<exists>pat\<in>set (optionFilters g). FilterMatcher.func pat ''red'' (nameToMatch pat)))"
    using assms(1)
    by (simp add: knobChoiceOptionFilters_def addOptionFilter_def
          equalsStringCaseInsensitive_def to_upper_def)
  have gate: "matchKnobFilterInternal ?f paramName pid a b c d e = Inr True"
    using assms(2,3)
    by (simp add: matchKnobFilterInternal_def channelsFilter_sel natronVersionMinReject_def
          newNatronVersionMatch_def channelsFilterBase_def addKnobFilter_def)
  have opt: "optionFilters ?f \<noteq> []" by (simp add: channelsFilter_sel)
  have fires: "\<exists>pat\<in>set (optionFilters ?f). FilterMatcher.func pat ''red'' (nameToMatch pat)"
    by (simp add: channelsFilter_sel addOptionFilter_def equalsStringCaseInsensitive_def to_upper_def)
  have "filterKnobChoiceOptionCompat_loop (?pre @ ?f # ?post) pid a b c d e paramName ''red''
          = Inr (True, replacement ?f)"
    using option_loop_step[OF pre opt gate] fires by simp
  then show ?thesis
    unfolding filterKnobChoiceOptionCompat_def using split by (simp add: channelsFilter_sel)
qed

section \<open>First match wins for names\<close>

text \<open>
  C3. filterKnobNameCompat walks the name rules in registration order and the first match
  wins: when a rule matches and no rule registered before it does, the lookup returns true
  with the name overwritten by that rule's replacement, whatever rules follow it, also
  when one of them would match too.
\<close>

theorem filterKnobNameCompat_first_match_wins:
  assumes "\<forall>g\<in>set pre. matchKnobFilterInternal g name pluginId pvMajor pvMinor nvMajor nvMinor nvRev = Inr False"
      and "matchKnobFilterInternal f name pluginId pvMajor pvMinor nvMajor nvMinor nvRev = Inr True"
  shows "filterKnobNameCompat_loop (pre @ f # post) pluginId pvMajor pvMinor nvMajor nvMinor nvRev name
           = Inr (True, replacement f) \<and>
         (knobNameFilters K = pre @ f # post \<longrightarrow>
          filterKnobNameCompat K pluginId pvMajor pvMinor nvMajor nvMinor nvRev name
            = Inr (True, replacement f))"
  using name_loop_first_match[OF assms] by (simp add: filterKnobNameCompat_def)

theorem filterKnobNameCompat_first_match_wins_witness:
  "filterKnobNameCompat sampleMacros ''fr.inria.built-in.Roto'' 1 0 2 0 0 ''doGreen''
     = Inr (True, ''NatronOfxParamProcessG'') \<and>
   filterKnobNameCompat_loop
     [\<lparr>filters = [], replacement = ''first'',
       natronVersionMin = newNatronVersionMatch, natronVersionMax = newNatronVersionMatch\<rparr>,
      \<lparr>filters = [], replacement = ''second'',
       natronVersionMin = newNatronVersionMatch, natronVersionMax = newNatronVersionMatch\<rparr>]
     ''fr.inria.built-in.Roto'' 1 0 2 0 0 ''doGreen'' = Inr (True, ''first'')"
proof -
  let ?reg = "knobNameFilters sampleMacros"
  have split: "?reg = take 1 ?reg @ (?reg ! 1) # drop 2 ?reg"
    by (simp add: knobNameFilters_def)
  have pre: "\<forall>g\<in>set (take 1 ?reg).
      matchKnobFilterInternal g ''doGreen'' ''fr.inria.built-in.Roto'' 1 0 2 0 0 = Inr False"
    by (simp add: sampleMacros_def registry_defs match_defs string_defs)
  have f: "matchKnobFilterInternal (?reg ! 1) ''doGreen'' ''fr.inria.built-in.Roto'' 1 0 2 0 0 = Inr True"
    by (simp add: sampleMacros_def registry_defs match_defs string_defs)
  have r: "replacement (?reg ! 1) = ''NatronOfxParamProcessG''"
    by (simp add: sampleMacros_def registry_defs)
  have one: "filterKnobNameCompat sampleMacros ''fr.inria.built-in.Roto'' 1 0 2 0 0 ''doGreen''
     = Inr (True, ''NatronOfxParamProcessG'')"
    using filterKnobNameCompat_first_match_wins[OF pre f, of "drop 2 ?reg" sampleMacros] split r
    by simp
  let ?a = "\<lparr>filters = [], replacement = ''first'',
       natronVersionMin = newNatronVersionMatch, natronVersionMax = newNatronVersionMatch\<rparr>"
  let ?b = "\<lparr>filters = [], replacement = ''second'',
       natronVersionMin = newNatronVersionMatch, natronVersionMax = newNatronVersionMatch\<rparr>"
  have pre0: "\<forall>g\<in>set []. matchKnobFilterInternal g ''doGreen'' ''fr.inria.built-in.Roto'' 1 0 2 0 0 = Inr False"
    by simp
  have fa: "matchKnobFilterInternal ?a ''doGreen'' ''fr.inria.built-in.Roto'' 1 0 2 0 0 = Inr True"
    by (simp add: registry_defs match_defs)
  have two: "filterKnobNameCompat_loop [?a, ?b] ''fr.inria.built-in.Roto'' 1 0 2 0 0 ''doGreen''
      = Inr (True, ''first'')"
    using filterKnobNameCompat_first_match_wins[OF pre0 fa, of "[?b]" sampleMacros] by simp
  from one two show ?thesis by simp
qed

section \<open>The scenario of the red process parameter\<close>

text \<open>
  C7. filterKnobNameCompat("net.sf.openfx.Foo", 1, 0, 2, 2, 99, name) with name "r"
  overwrites name with kNatronOfxParamProcessR and returns true: the host version 2.2.99
  is the upper bound of the rule and passes. With host version (2, 3, 0) the call returns
  false and leaves name equal to "r". The macros are taken non-empty, as the assertions
  of the lookup need.
\<close>

theorem filterKnobNameCompat_r_scenario:
  assumes "macrosNonEmpty K"
  shows "filterKnobNameCompat K ''net.sf.openfx.Foo'' 1 0 2 2 99 ''r''
           = Inr (True, kNatronOfxParamProcessR K) \<and>
         filterKnobNameCompat K ''net.sf.openfx.Foo'' 1 0 2 3 0 ''r'' = Inr (False, ''r'')"
  using assms
  by (simp add: filterKnobNameCompat_def macrosNonEmpty_def registry_defs match_defs string_defs)

theorem filterKnobNameCompat_r_scenario_witness:
  "filterKnobNameCompat sampleMacros ''net.sf.openfx.Foo'' 1 0 2 2 99 ''r''
     = Inr (True, ''NatronOfxParamProcessR'') \<and>
   filterKnobNameCompat sampleMacros ''net.sf.openfx.Foo'' 1 0 2 3 0 ''r'' = Inr (False, ''r'')"
  using filterKnobNameCompat_r_scenario[OF sampleMacros_nonEmpty]
  by (simp add: sampleMacros_def)

section \<open>Option rules: rewrite at the first matching pattern, else go on\<close>

text \<open>
  C4. In filterKnobChoiceOptionCompat, when the loop reaches a rule whose host-version and
  name gate matches paramName (no earlier rule has rewritten the value): if one of the
  rule's option patterns matches the current value, the value is overwritten with the
  rule's replacement and the lookup returns true at once; if none does, the lookup goes on
  with the next rule in registration order and does not return false.
\<close>

theorem filterKnobChoiceOptionCompat_rule_step:
  assumes "\<forall>g\<in>set pre. replacement g \<noteq> [] \<and> optionFilters g \<noteq> [] \<and>
             (matchKnobFilterInternal g paramName pluginId pvMajor pvMinor nvMajor nvMinor nvRev = Inr False \<or>
              \<not> (\<exists>pat\<in>set (optionFilters g). FilterMatcher.func pat v (nameToMatch pat)))"
      and "optionFilters f \<noteq> []"
      and "matchKnobFilterInternal f paramName pluginId pvMajor pvMinor nvMajor nvMinor nvRev = Inr True"
  shows "filterKnobChoiceOptionCompat_loop (pre @ f # post)
             pluginId pvMajor pvMinor nvMajor nvMinor nvRev paramName v =
           (if \<exists>pat\<in>set (optionFilters f). FilterMatcher.func pat v (nameToMatch pat)
            then Inr (True, replacement f)
            else filterKnobChoiceOptionCompat_loop post
                   pluginId pvMajor pvMinor nvMajor nvMinor nvRev paramName v) \<and>
         (knobChoiceOptionFilters K = pre @ f # post \<longrightarrow>
          filterKnobChoiceOptionCompat K pluginId pvMajor pvMinor nvMajor nvMinor nvRev paramName v =
           (if \<exists>pat\<in>set (optionFilters f). FilterMatcher.func pat v (nameToMatch pat)
            then Inr (True, replacement f)
            else filterKnobChoiceOptionCompat_loop post
                   pluginId pvMajor pvMinor nvMajor nvMinor nvRev paramName v))"
  using option_loop_step[OF assms] by (simp add: filterKnobChoiceOptionCompat_def)

text \<open>
  On the shipped registry with parameter \<open>maskChannel_Mask\<close> and value \<open>green\<close>: the
  sixth rule (red) passes its name gate, none of its patterns matches, and the lookup goes
  on with the rules after it; the seventh rule (green) then rewrites the value.
\<close>

theorem filterKnobChoiceOptionCompat_rule_step_witness:
  "filterKnobChoiceOptionCompat sampleMacros ''net.sf.openfx.MergePlugin'' 1 0 2 0 0
       ''maskChannel_Mask'' ''green'' =
     filterKnobChoiceOptionCompat_loop (drop 6 (knobChoiceOptionFilters sampleMacros))
       ''net.sf.openfx.MergePlugin'' 1 0 2 0 0 ''maskChannel_Mask'' ''green'' \<and>
   filterKnobChoiceOptionCompat sampleMacros ''net.sf.openfx.MergePlugin'' 1 0 2 0 0
       ''maskChannel_Mask'' ''green'' = Inr (True, ''Color.G'')"
proof -
  let ?reg = "knobChoiceOptionFilters sampleMacros"
  let ?P = "\<lambda>g. replacement g \<noteq> [] \<and> optionFilters g \<noteq> [] \<and>
             (matchKnobFilterInternal g ''maskChannel_Mask'' ''net.sf.openfx.MergePlugin'' 1 0 2 0 0 = Inr False \<or>
              \<not> (\<exists>pat\<in>set (optionFilters g). FilterMatcher.func pat ''green'' (nameToMatch pat)))"
  have gate: "\<And>opts repl. repl \<noteq> [] \<Longrightarrow>
      matchKnobFilterInternal (channelsFilter opts repl)
        ''maskChannel_Mask'' ''net.sf.openfx.MergePlugin'' 1 0 2 0 0 = Inr True"
    by (simp add: matchKnobFilterInternal_def channelsFilter_sel natronVersionMinReject_def
          natronVersionMaxReject_def newNatronVersionMatch_def natronVersion_def
          channelsFilterBase_def addKnobFilter_def startsWith_def)
  have split6: "?reg = take 5 ?reg @ (?reg ! 5) # drop 6 ?reg"
    by (simp add: knobChoiceOptionFilters_def)
  have split7: "?reg = take 6 ?reg @ (?reg ! 6) # drop 7 ?reg"
    by (simp add: knobChoiceOptionFilters_def)
  have pre5: "\<forall>g\<in>set (take 5 ?reg). ?P g"
    by (simp add: knobChoiceOptionFilters_def sampleMacros_def addOptionFilter_def
          equalsStringCaseInsensitive_def to_upper_def)
  have r6: "?reg ! 5 = channelsFilter [''RGBA.R'', ''UV.r'', ''red'', ''r''] (''Color'' @ ''.R'')"
    and r7: "?reg ! 6 = channelsFilter [''RGBA.G'', ''UV.g'', ''green'', ''g''] (''Color'' @ ''.G'')"
    by (simp_all add: knobChoiceOptionFilters_def sampleMacros_def)
  have no6: "\<not> (\<exists>pat\<in>set (optionFilters (?reg ! 5)). FilterMatcher.func pat ''green'' (nameToMatch pat))"
    unfolding r6
    by (simp add: channelsFilter_sel addOptionFilter_def equalsStringCaseInsensitive_def to_upper_def)
  have yes7: "\<exists>pat\<in>set (optionFilters (?reg ! 6)). FilterMatcher.func pat ''green'' (nameToMatch pat)"
    unfolding r7
    by (simp add: channelsFilter_sel addOptionFilter_def equalsStringCaseInsensitive_def to_upper_def)
  have P6: "?P (?reg ! 5)"
    using no6 unfolding r6 by (simp add: channelsFilter_sel)
  have pre6: "\<forall>g\<in>set (take 6 ?reg). ?P g"
  proof -
    have "take 6 ?reg = take 5 ?reg @ [?reg ! 5]"
      by (simp add: knobChoiceOptionFilters_def)
    with pre5 P6 show ?thesis by simp
  qed
  have o6: "optionFilters (?reg ! 5) \<noteq> []" and o7: "optionFilters (?reg ! 6) \<noteq> []"
    unfolding r6 r7 by (simp_all add: channelsFilter_sel)
  have g6: "matchKnobFilterInternal (?reg ! 5)
        ''maskChannel_Mask'' ''net.sf.openfx.MergePlugin'' 1 0 2 0 0 = Inr True"
    unfolding r6 by (rule gate) simp
  have g7: "matchKnobFilterInternal (?reg ! 6)
        ''maskChannel_Mask'' ''net.sf.openfx.MergePlugin'' 1 0 2 0 0 = Inr True"
    unfolding r7 by (rule gate) simp
  have one: "filterKnobChoiceOptionCompat sampleMacros ''net.sf.openfx.MergePlugin'' 1 0 2 0 0
       ''maskChannel_Mask'' ''green'' =
     filterKnobChoiceOptionCompat_loop (drop 6 ?reg)
       ''net.sf.openfx.MergePlugin'' 1 0 2 0 0 ''maskChannel_Mask'' ''green''"
    using filterKnobChoiceOptionCompat_rule_step[OF pre5 o6 g6, of "drop 6 ?reg" sampleMacros]
      split6 no6 by simp
  have two: "filterKnobChoiceOptionCompat sampleMacros ''net.sf.openfx.MergePlugin'' 1 0 2 0 0
       ''maskChannel_Mask'' ''green'' = Inr (True, replacement (?reg ! 6))"
    using filterKnobChoiceOptionCompat_rule_step[OF pre6 o7 g7, of "drop 7 ?reg" sampleMacros]
      split7 yes7 by simp
  have "replacement (?reg ! 6) = ''Color.G''"
    unfolding r7 by (simp add: channelsFilter_sel)
  with one two show ?thesis by simp
qed

section \<open>A lookup rewrites and returns true, or returns false and leaves its input\<close>

text \<open>
  C5. For every input, each of filterKnobNameCompat and filterKnobChoiceOptionCompat
  either returns true with its output string overwritten by the replacement of a
  registered rule, or returns false with the string unchanged; no assertion fails and
  there is no other outcome. When matchKnobFilterInternal is false for every rule of the
  registry, the result is false with the string unchanged. The macros are taken non-empty.
\<close>

theorem lookups_rewrite_or_leave_unchanged:
  assumes "macrosNonEmpty K"
  shows "(filterKnobNameCompat K pluginId pvMajor pvMinor nvMajor nvMinor nvRev name = Inr (False, name) \<or>
          (\<exists>f\<in>set (knobNameFilters K).
             filterKnobNameCompat K pluginId pvMajor pvMinor nvMajor nvMinor nvRev name
               = Inr (True, replacement f))) \<and>
         (filterKnobChoiceOptionCompat K pluginId pvMajor pvMinor nvMajor nvMinor nvRev paramName v
            = Inr (False, v) \<or>
          (\<exists>f\<in>set (knobChoiceOptionFilters K).
             filterKnobChoiceOptionCompat K pluginId pvMajor pvMinor nvMajor nvMinor nvRev paramName v
               = Inr (True, replacement f))) \<and>
         ((\<forall>f\<in>set (knobNameFilters K).
             matchKnobFilterInternal f name pluginId pvMajor pvMinor nvMajor nvMinor nvRev = Inr False) \<longrightarrow>
          filterKnobNameCompat K pluginId pvMajor pvMinor nvMajor nvMinor nvRev name = Inr (False, name)) \<and>
         ((\<forall>f\<in>set (knobChoiceOptionFilters K).
             matchKnobFilterInternal f paramName pluginId pvMajor pvMinor nvMajor nvMinor nvRev = Inr False) \<longrightarrow>
          filterKnobChoiceOptionCompat K pluginId pvMajor pvMinor nvMajor nvMinor nvRev paramName v
            = Inr (False, v))"
proof -
  have c: "kNatronColorPlaneID K \<noteq> []"
    using assms by (simp add: macrosNonEmpty_def)
  have n: "\<forall>g\<in>set (knobNameFilters K). replacement g \<noteq> []"
    using knobNameFilters_wf[OF assms] by simp
  have o: "\<forall>g\<in>set (knobChoiceOptionFilters K). replacement g \<noteq> [] \<and> optionFilters g \<noteq> []"
    using knobChoiceOptionFilters_wf[OF c] by simp
  have o': "\<forall>g\<in>set (knobChoiceOptionFilters K). optionFilters g \<noteq> []"
    using o by simp
  have A: "filterKnobNameCompat K pluginId pvMajor pvMinor nvMajor nvMinor nvRev name = Inr (False, name) \<or>
          (\<exists>f\<in>set (knobNameFilters K).
             filterKnobNameCompat K pluginId pvMajor pvMinor nvMajor nvMinor nvRev name
               = Inr (True, replacement f))"
    unfolding filterKnobNameCompat_def by (rule name_loop_outcome[OF n])
  have B: "filterKnobChoiceOptionCompat K pluginId pvMajor pvMinor nvMajor nvMinor nvRev paramName v
            = Inr (False, v) \<or>
          (\<exists>f\<in>set (knobChoiceOptionFilters K).
             filterKnobChoiceOptionCompat K pluginId pvMajor pvMinor nvMajor nvMinor nvRev paramName v
               = Inr (True, replacement f))"
    unfolding filterKnobChoiceOptionCompat_def by (rule option_loop_outcome[OF o])
  have C: "(\<forall>f\<in>set (knobNameFilters K).
             matchKnobFilterInternal f name pluginId pvMajor pvMinor nvMajor nvMinor nvRev = Inr False) \<longrightarrow>
          filterKnobNameCompat K pluginId pvMajor pvMinor nvMajor nvMinor nvRev name = Inr (False, name)"
    unfolding filterKnobNameCompat_def by (simp add: name_loop_no_match)
  have D: "(\<forall>f\<in>set (knobChoiceOptionFilters K).
             matchKnobFilterInternal f paramName pluginId pvMajor pvMinor nvMajor nvMinor nvRev = Inr False) \<longrightarrow>
          filterKnobChoiceOptionCompat K pluginId pvMajor pvMinor nvMajor nvMinor nvRev paramName v
            = Inr (False, v)"
    unfolding filterKnobChoiceOptionCompat_def using o' by (simp add: option_loop_no_match)
  from A B C D show ?thesis by (intro conjI)
qed

text \<open>
  A plug-in that no name rule and no option rule is gated for: both lookups return false
  and leave the string as it was.
\<close>

theorem lookups_rewrite_or_leave_unchanged_witness:
  "filterKnobNameCompat sampleMacros ''com.example.Blur'' 1 0 2 0 0 ''r'' = Inr (False, ''r'') \<and>
   filterKnobChoiceOptionCompat sampleMacros ''com.example.Blur'' 1 0 2 0 0 ''bitDepth'' ''8i''
     = Inr (False, ''8i'')"
proof -
  have n: "\<forall>f\<in>set (knobNameFilters sampleMacros).
             matchKnobFilterInternal f ''r'' ''com.example.Blur'' 1 0 2 0 0 = Inr False"
    by (simp add: sampleMacros_def registry_defs match_defs string_defs)
  have o: "\<forall>f\<in>set (knobChoiceOptionFilters sampleMacros).
             matchKnobFilterInternal f ''bitDepth'' ''com.example.Blur'' 1 0 2 0 0 = Inr False"
    by (simp add: sampleMacros_def registry_defs match_defs string_defs)
  from lookups_rewrite_or_leave_unchanged[OF sampleMacros_nonEmpty,
      of "''com.example.Blur''" 1 0 2 0 0 "''r''" "''bitDepth''" "''8i''"] n o
  show ?thesis by blast
qed

section \<open>The registry entries satisfy the assertions\<close>

text \<open>
  C9. Every rule of both registries as constructed has a non-empty replacement string and a
  non-empty list of name alternatives, and every option rule has a non-empty list of
  option-value patterns; hence no assertion of the two lookups or of
  matchKnobFilterInternal fails on a registry entry. The five macros that stand alone as a
  replacement are taken non-empty.
\<close>

theorem registries_satisfy_assertions:
  assumes "macrosNonEmpty K"
  shows "(\<forall>f\<in>set (knobNameFilters K). replacement f \<noteq> [] \<and> filters f \<noteq> []) \<and>
         (\<forall>f\<in>set (knobChoiceOptionFilters K).
            replacement f \<noteq> [] \<and> filters f \<noteq> [] \<and> optionFilters f \<noteq> []) \<and>
         (\<forall>f\<in>set (knobNameFilters K).
            matchKnobFilterInternal f name pluginId pvMajor pvMinor nvMajor nvMinor nvRev
              \<noteq> Inl AssertionFailed) \<and>
         (\<forall>f\<in>set (knobChoiceOptionFilters K).
            matchKnobFilterInternal f paramName pluginId pvMajor pvMinor nvMajor nvMinor nvRev
              \<noteq> Inl AssertionFailed) \<and>
         filterKnobNameCompat K pluginId pvMajor pvMinor nvMajor nvMinor nvRev name
           \<noteq> Inl AssertionFailed \<and>
         filterKnobChoiceOptionCompat K pluginId pvMajor pvMinor nvMajor nvMinor nvRev paramName v
           \<noteq> Inl AssertionFailed"
proof -
  have c: "kNatronColorPlaneID K \<noteq> []"
    using assms by (simp add: macrosNonEmpty_def)
  note n = knobNameFilters_wf[OF assms]
  note o = knobChoiceOptionFilters_wf[OF c]
  have n': "\<forall>g\<in>set (knobNameFilters K). replacement g \<noteq> []" using n by simp
  have o': "\<forall>g\<in>set (knobChoiceOptionFilters K). replacement g \<noteq> [] \<and> optionFilters g \<noteq> []"
    using o by simp
  have mn: "\<forall>f\<in>set (knobNameFilters K).
            matchKnobFilterInternal f name pluginId pvMajor pvMinor nvMajor nvMinor nvRev
              \<noteq> Inl AssertionFailed"
    using n' by (simp add: matchKnobFilterInternal_def)
  have mo: "\<forall>f\<in>set (knobChoiceOptionFilters K).
            matchKnobFilterInternal f paramName pluginId pvMajor pvMinor nvMajor nvMinor nvRev
              \<noteq> Inl AssertionFailed"
    using o' by (simp add: matchKnobFilterInternal_def)
  have ln: "filterKnobNameCompat K pluginId pvMajor pvMinor nvMajor nvMinor nvRev name
           \<noteq> Inl AssertionFailed"
    unfolding filterKnobNameCompat_def
    using name_loop_outcome[OF n', of pluginId pvMajor pvMinor nvMajor nvMinor nvRev name]
    by auto
  have lo: "filterKnobChoiceOptionCompat K pluginId pvMajor pvMinor nvMajor nvMinor nvRev paramName v
           \<noteq> Inl AssertionFailed"
    unfolding filterKnobChoiceOptionCompat_def
    using option_loop_outcome[OF o', of pluginId pvMajor pvMinor nvMajor nvMinor nvRev paramName v]
    by auto
  from n o mn mo ln lo show ?thesis by (intro conjI)
qed

theorem registries_satisfy_assertions_witness:
  "list_all (\<lambda>f. replacement f \<noteq> [] \<and> filters f \<noteq> []) (knobNameFilters sampleMacros) \<and>
   list_all (\<lambda>f. replacement f \<noteq> [] \<and> filters f \<noteq> [] \<and> optionFilters f \<noteq> [])
     (knobChoiceOptionFilters sampleMacros) \<and>
   filterKnobNameCompat sampleMacros ''fr.inria.built-in.Roto'' 2 0 2 1 0 ''doBlue''
     \<noteq> Inl AssertionFailed \<and>
   filterKnobChoiceOptionCompat sampleMacros ''fr.inria.built-in.Write'' 1 0 1 0 0
     ''frameRange'' ''Timeline bounds'' \<noteq> Inl AssertionFailed"
  using registries_satisfy_assertions[OF sampleMacros_nonEmpty,
      of "''doBlue''" "''fr.inria.built-in.Roto''" 2 0 2 1 0 "''frameRange''" "''Timeline bounds''"]
    registries_satisfy_assertions[OF sampleMacros_nonEmpty,
      of "''doBlue''" "''fr.inria.built-in.Write''" 1 0 1 0 0 "''frameRange''" "''Timeline bounds''"]
  by (simp add: list_all_iff)

section \<open>Exact plug-in constraints compare without regard to letter case\<close>

text \<open>
  C10. A plug-in constraint added by addPluginMatch compares the plug-in identifier with
  equalsStringCaseInsensitive unless the caller overwrites the comparison. When two
  plug-in identifiers differ only in the case of ASCII letters, every rule whose plug-in
  constraints all keep that default gives the same result of matchKnobFilterInternal for
  both, whatever the other arguments are; the channel rules (constraints on
  net.sf.openfx.IDistort, net.sf.openfx.STMap and net.sf.openfx.ShufflePlugin) are such
  rules.
\<close>

theorem default_plugin_constraints_ignore_case:
  assumes "map to_upper pluginId1 = map to_upper pluginId2"
  shows "PluginMatch.func (addPluginMatch i majorMin minorMin majorMax minorMax)
           = equalsStringCaseInsensitive \<and>
         equalsStringCaseInsensitive pluginId1 i = equalsStringCaseInsensitive pluginId2 i \<and>
         ((\<forall>m\<in>set (filters f). \<forall>p\<in>set (plugin m).
              PluginMatch.func p = equalsStringCaseInsensitive) \<longrightarrow>
          matchKnobFilterInternal f name pluginId1 pvMajor pvMinor nvMajor nvMinor nvRev =
          matchKnobFilterInternal f name pluginId2 pvMajor pvMinor nvMajor nvMinor nvRev) \<and>
         matchKnobFilterInternal (channelsFilter options repl) name
             pluginId1 pvMajor pvMinor nvMajor nvMinor nvRev =
         matchKnobFilterInternal (channelsFilter options repl) name
             pluginId2 pvMajor pvMinor nvMajor nvMinor nvRev"
proof -
  have ch: "\<forall>m\<in>set (filters (channelsFilter options repl)). \<forall>p\<in>set (plugin m).
              PluginMatch.func p = equalsStringCaseInsensitive"
    by (simp add: channelsFilter_sel channelsFilterBase_def addKnobFilter_def addPluginMatch_def)
  have A: "PluginMatch.func (addPluginMatch i majorMin minorMin majorMax minorMax)
           = equalsStringCaseInsensitive"
    by (simp add: addPluginMatch_def)
  have B: "equalsStringCaseInsensitive pluginId1 i = equalsStringCaseInsensitive pluginId2 i"
    using assms by (simp add: equalsStringCaseInsensitive_def iequals_map)
  have C: "(\<forall>m\<in>set (filters f). \<forall>p\<in>set (plugin m).
              PluginMatch.func p = equalsStringCaseInsensitive) \<longrightarrow>
          matchKnobFilterInternal f name pluginId1 pvMajor pvMinor nvMajor nvMinor nvRev =
          matchKnobFilterInternal f name pluginId2 pvMajor pvMinor nvMajor nvMinor nvRev"
    using match_case[OF assms] by blast
  have D: "matchKnobFilterInternal (channelsFilter options repl) name
             pluginId1 pvMajor pvMinor nvMajor nvMinor nvRev =
         matchKnobFilterInternal (channelsFilter options repl) name
             pluginId2 pvMajor pvMinor nvMajor nvMinor nvRev"
    by (rule match_case[OF assms ch])
  from A B C D show ?thesis by (intro conjI)
qed

theorem default_plugin_constraints_ignore_case_witness:
  "matchKnobFilterInternal (channelsFilter [''red''] ''Color.R'') ''outputR''
     ''net.sf.openfx.ShufflePlugin'' 2 0 2 0 0 = Inr True \<and>
   matchKnobFilterInternal (channelsFilter [''red''] ''Color.R'') ''outputR''
     ''NET.SF.OPENFX.shuffleplugin'' 2 0 2 0 0 = Inr True"
proof -
  have c: "map to_upper ''net.sf.openfx.ShufflePlugin'' = map to_upper ''NET.SF.OPENFX.shuffleplugin''"
    by (simp add: to_upper_def)
  have one: "matchKnobFilterInternal (channelsFilter [''red''] ''Color.R'') ''outputR''
     ''net.sf.openfx.ShufflePlugin'' 2 0 2 0 0 = Inr True"
    by (simp add: registry_defs match_defs string_defs)
  have "matchKnobFilterInternal (channelsFilter [''red''] ''Color.R'') ''outputR''
          ''net.sf.openfx.ShufflePlugin'' 2 0 2 0 0 =
        matchKnobFilterInternal (channelsFilter [''red''] ''Color.R'') ''outputR''
          ''NET.SF.OPENFX.shuffleplugin'' 2 0 2 0 0"
    by (rule default_plugin_constraints_ignore_case
          [OF c, THEN conjunct2, THEN conjunct2, THEN conjunct2])
  with one show ?thesis by simp
qed

section \<open>The option red\<close>

text \<open>
  C6, as the claim states it, fails: with paramName "channels" and value "red" the lookup
  returns false and leaves the value. The name "channels" passes the name gate of the
  five plane rules only (suffix "channels"), whose patterns do not include "red"; the
  rule holding the pattern "red" is gated on names that start with "maskChannel" and on
  seven exact names, none of which "channels" is.
\<close>

theorem channels_red_counterexample:
  "filterKnobChoiceOptionCompat sampleMacros ''net.sf.openfx.Foo'' 1 0 2 0 0 ''channels'' ''red''
     = Inr (False, ''red'') \<and>
   (\<forall>K. filterKnobChoiceOptionCompat K ''net.sf.openfx.Foo'' 1 0 2 0 0 ''channels'' ''red''
        \<noteq> Inr (True, kNatronColorPlaneID K @ ''.R''))"
proof -
  have s: "kNatronColorPlaneID sampleMacros \<noteq> []"
    by (simp add: sampleMacros_def)
  have "filterKnobChoiceOptionCompat K ''net.sf.openfx.Foo'' 1 0 2 0 0 ''channels'' ''red''
        \<noteq> Inr (True, kNatronColorPlaneID K @ ''.R'')" for K
  proof (cases "kNatronColorPlaneID K = []")
    case True
    then show ?thesis
      by (simp add: filterKnobChoiceOptionCompat_def knobChoiceOptionFilters_def)
  next
    case False
    then show ?thesis by (simp add: channels_red)
  qed
  with channels_red[OF s] show ?thesis by simp
qed

text \<open>
  C6, amended. Calling filterKnobChoiceOptionCompat with a paramName that starts with
  "maskChannel" and value "red", for any plug-in and a host version that the bound
  2.2.99 does not reject, overwrites the value with kNatronColorPlaneID followed by ".R"
  and returns true. With paramName "channels" and value "red" the call returns false and
  leaves the value, for any plug-in and any host version. kNatronColorPlaneID is taken
  non-empty.
\<close>

theorem maskChannel_red_rewritten:
  assumes "kNatronColorPlaneID K \<noteq> []"
  shows "(startsWith paramName ''maskChannel'' \<and>
          \<not> natronVersionMaxReject (natronVersion 2 2 99) nvMajor nvMinor nvRev \<longrightarrow>
          filterKnobChoiceOptionCompat K pluginId pvMajor pvMinor nvMajor nvMinor nvRev paramName ''red''
            = Inr (True, kNatronColorPlaneID K @ ''.R'')) \<and>
         filterKnobChoiceOptionCompat K pluginId pvMajor pvMinor nvMajor nvMinor nvRev ''channels'' ''red''
           = Inr (False, ''red'')"
  using maskChannel_red[OF assms] channels_red[OF assms] by simp

theorem maskChannel_red_rewritten_witness:
  "filterKnobChoiceOptionCompat sampleMacros ''net.sf.openfx.MergePlugin'' 1 0 2 2 99
     ''maskChannel_Mask'' ''red'' = Inr (True, ''Color.R'') \<and>
   filterKnobChoiceOptionCompat sampleMacros ''net.sf.openfx.MergePlugin'' 1 0 2 2 99
     ''channels'' ''red'' = Inr (False, ''red'')"
proof -
  have s: "kNatronColorPlaneID sampleMacros \<noteq> []"
    by (simp add: sampleMacros_def)
  have p: "startsWith ''maskChannel_Mask'' ''maskChannel''"
    by (simp add: startsWith_def)
  have h: "\<not> natronVersionMaxReject (natronVersion 2 2 99) 2 2 99"
    by (simp add: natronVersionMaxReject_def natronVersion_def)
  from maskChannel_red_rewritten[OF s, of "''maskChannel_Mask''" 2 2 99
      "''net.sf.openfx.MergePlugin''" 1 0] p h
  show ?thesis by (simp add: sampleMacros_def)
qed

section \<open>The sentinel -1 in a caller's version\<close>

text \<open>
  The lookups over a registry and over the image of the registry under a map of its
  rules agree when each rule and its image have the same replacement (and option
  patterns) and the same result of matchKnobFilterInternal.
\<close>

lemma name_loop_map:
  assumes "\<forall>f\<in>set reg. replacement (g f) = replacement f \<and>
             matchKnobFilterInternal f name pid a b c d e =
             matchKnobFilterInternal (g f) name pid a' b' c' d' e'"
  shows "filterKnobNameCompat_loop reg pid a b c d e name =
         filterKnobNameCompat_loop (map g reg) pid a' b' c' d' e' name"
  using assms
proof (induction reg)
  case Nil then show ?case by simp
next
  case (Cons f reg)
  have r: "replacement (g f) = replacement f"
    and m: "matchKnobFilterInternal f name pid a b c d e =
            matchKnobFilterInternal (g f) name pid a' b' c' d' e'"
    using Cons.prems by simp_all
  have IH: "filterKnobNameCompat_loop reg pid a b c d e name =
            filterKnobNameCompat_loop (map g reg) pid a' b' c' d' e' name"
    using Cons by simp
  show ?case
    by (simp only: list.map filterKnobNameCompat_loop.simps r m IH)
qed

lemma option_loop_map:
  assumes "\<forall>f\<in>set reg. replacement (g f) = replacement f \<and> optionFilters (g f) = optionFilters f \<and>
             matchKnobFilterInternal f paramName pid a b c d e =
             matchKnobFilterInternal (g f) paramName pid a' b' c' d' e'"
  shows "filterKnobChoiceOptionCompat_loop reg pid a b c d e paramName v =
         filterKnobChoiceOptionCompat_loop (map g reg) pid a' b' c' d' e' paramName v"
  using assms
proof (induction reg)
  case Nil then show ?case by simp
next
  case (Cons f reg)
  have r: "replacement (g f) = replacement f" and o: "optionFilters (g f) = optionFilters f"
    and m: "matchKnobFilterInternal f paramName pid a b c d e =
            matchKnobFilterInternal (g f) paramName pid a' b' c' d' e'"
    using Cons.prems by simp_all
  have IH: "filterKnobChoiceOptionCompat_loop reg pid a b c d e paramName v =
            filterKnobChoiceOptionCompat_loop (map g reg) pid a' b' c' d' e' paramName v"
    using Cons by simp
  show ?case
    by (simp only: list.map filterKnobChoiceOptionCompat_loop.simps r o m IH)
qed

lemma match_hostRangeRemoved:
  "matchKnobFilterInternal f name pid a b (-1) d e =
   matchKnobFilterInternal (hostRangeRemoved f) name pid a b c' d' e'"
  by (simp add: matchKnobFilterInternal_def hostRangeRemoved_def natronVersionMinReject_def
        natronVersionMaxReject_def newNatronVersionMatch_def)

lemma match_hostMinorRemoved:
  assumes "vMajor (natronVersionMin f) = -1" "-1 \<le> vMinor (natronVersionMax f)"
  shows "matchKnobFilterInternal f name pid a b c (-1) e =
         matchKnobFilterInternal (hostMinorRemoved f) name pid a b c d' e'"
proof -
  have mn: "natronVersionMinReject (natronVersionMin f) c (-1) e =
            natronVersionMinReject (minorRemoved (natronVersionMin f)) c d' e'"
    using assms(1) by (simp add: natronVersionMinReject_def minorRemoved_def)
  have mx: "natronVersionMaxReject (natronVersionMax f) c (-1) e =
            natronVersionMaxReject (minorRemoved (natronVersionMax f)) c d' e'"
    using assms(2) by (auto simp: natronVersionMaxReject_def minorRemoved_def)
  show ?thesis
    by (simp add: matchKnobFilterInternal_def hostMinorRemoved_def mn mx)
qed

lemma match_hostRevisionRemoved:
  assumes "vMajor (natronVersionMin f) = -1" "-1 \<le> vRev (natronVersionMax f)"
  shows "matchKnobFilterInternal f name pid a b c d (-1) =
         matchKnobFilterInternal (hostRevisionRemoved f) name pid a b c d e'"
proof -
  have mn: "natronVersionMinReject (natronVersionMin f) c d (-1) =
            natronVersionMinReject (revisionRemoved (natronVersionMin f)) c d e'"
    using assms(1) by (simp add: natronVersionMinReject_def revisionRemoved_def)
  have mx: "natronVersionMaxReject (natronVersionMax f) c d (-1) =
            natronVersionMaxReject (revisionRemoved (natronVersionMax f)) c d e'"
    using assms(2) by (auto simp: natronVersionMaxReject_def revisionRemoved_def)
  show ?thesis
    by (simp add: matchKnobFilterInternal_def hostRevisionRemoved_def mn mx)
qed

lemma pluginLoop_map:
  assumes "\<forall>p\<in>set ps. PluginMatch.func (g p) = PluginMatch.func p \<and> pluginID (g p) = pluginID p \<and>
             pluginVersionMinReject p a b = pluginVersionMinReject (g p) a' b' \<and>
             pluginVersionMaxReject p a b = pluginVersionMaxReject (g p) a' b'"
  shows "pluginLoop ps pid a b = pluginLoop (map g ps) pid a' b'"
  using assms by (induction ps) simp_all

lemma knobMatchLoop_map:
  assumes "\<forall>m\<in>set ms. \<forall>p\<in>set (plugin m).
             PluginMatch.func (g p) = PluginMatch.func p \<and> pluginID (g p) = pluginID p \<and>
             pluginVersionMinReject p a b = pluginVersionMinReject (g p) a' b' \<and>
             pluginVersionMaxReject p a b = pluginVersionMaxReject (g p) a' b'"
  shows "knobMatchLoop ms name pid a b =
         knobMatchLoop (map (\<lambda>m. m\<lparr>plugin := map g (plugin m)\<rparr>) ms) name pid a' b'"
  using assms
proof (induction ms)
  case Nil then show ?case by simp
next
  case (Cons m ms)
  have pl: "pluginLoop (plugin m) pid a b = pluginLoop (map g (plugin m)) pid a' b'"
    by (rule pluginLoop_map) (use Cons.prems in simp)
  have IH: "knobMatchLoop ms name pid a b =
         knobMatchLoop (map (\<lambda>m. m\<lparr>plugin := map g (plugin m)\<rparr>) ms) name pid a' b'"
    using Cons by simp
  show ?case by (simp add: pl IH split: pluginScan.splits bool.splits)
qed

lemma match_mapPlugins:
  assumes "\<forall>m\<in>set (filters f). \<forall>p\<in>set (plugin m).
             PluginMatch.func (g p) = PluginMatch.func p \<and> pluginID (g p) = pluginID p \<and>
             pluginVersionMinReject p a b = pluginVersionMinReject (g p) a' b' \<and>
             pluginVersionMaxReject p a b = pluginVersionMaxReject (g p) a' b'"
  shows "matchKnobFilterInternal f name pid a b c d e =
         matchKnobFilterInternal (mapPlugins g f) name pid a' b' c d e"
  using knobMatchLoop_map[OF assms, of name pid]
  by (simp add: matchKnobFilterInternal_def mapPlugins_def)

lemma match_pluginRangeRemoved:
  "matchKnobFilterInternal f name pid (-1) b c d e =
   matchKnobFilterInternal (mapPlugins pluginRangeRemoved f) name pid a' b' c d e"
  by (rule match_mapPlugins)
     (simp add: pluginRangeRemoved_def pluginVersionMinReject_def pluginVersionMaxReject_def)

lemma pluginMinorRemoved_reject:
  assumes "pluginVersionMinorMin p = -1" "-1 \<le> pluginVersionMinorMax p"
  shows "pluginVersionMinReject p a (-1) = pluginVersionMinReject (pluginMinorRemoved p) a b'"
    and "pluginVersionMaxReject p a (-1) = pluginVersionMaxReject (pluginMinorRemoved p) a b'"
  using assms
  by (auto simp: pluginMinorRemoved_def pluginVersionMinReject_def pluginVersionMaxReject_def)

lemma match_pluginMinorRemoved:
  assumes "\<forall>m\<in>set (filters f). \<forall>p\<in>set (plugin m).
             pluginVersionMinorMin p = -1 \<and> -1 \<le> pluginVersionMinorMax p"
  shows "matchKnobFilterInternal f name pid a (-1) c d e =
         matchKnobFilterInternal (mapPlugins pluginMinorRemoved f) name pid a b' c d e"
proof (rule match_mapPlugins, intro ballI conjI)
  fix m p assume "m \<in> set (filters f)" "p \<in> set (plugin m)"
  then have p: "pluginVersionMinorMin p = -1" "-1 \<le> pluginVersionMinorMax p"
    using assms by auto
  show "PluginMatch.func (pluginMinorRemoved p) = PluginMatch.func p"
    and "pluginID (pluginMinorRemoved p) = pluginID p"
    by (simp_all add: pluginMinorRemoved_def)
  show "pluginVersionMinReject p a (-1) = pluginVersionMinReject (pluginMinorRemoved p) a b'"
    and "pluginVersionMaxReject p a (-1) = pluginVersionMaxReject (pluginMinorRemoved p) a b'"
    by (rule pluginMinorRemoved_reject[OF p])+
qed

lemma removed_sel:
  "replacement (hostRangeRemoved f) = replacement f"
  "replacement (hostMinorRemoved f) = replacement f"
  "replacement (hostRevisionRemoved f) = replacement f"
  "replacement (mapPlugins g f) = replacement f"
  by (simp_all add: hostRangeRemoved_def hostMinorRemoved_def hostRevisionRemoved_def mapPlugins_def)

lemma removed_opt:
  "optionFilters (hostRangeRemoved f) = optionFilters f"
  "optionFilters (hostMinorRemoved f) = optionFilters f"
  "optionFilters (hostRevisionRemoved f) = optionFilters f"
  "optionFilters (mapPlugins g f) = optionFilters f"
  by (simp_all add: hostRangeRemoved_def hostMinorRemoved_def hostRevisionRemoved_def mapPlugins_def)

lemma knobNameFilters_bounds:
  "\<forall>f\<in>set (knobNameFilters K).
     vMajor (natronVersionMin f) = -1 \<and> -1 \<le> vMinor (natronVersionMax f) \<and>
     -1 \<le> vRev (natronVersionMax f) \<and>
     (\<forall>m\<in>set (filters f). \<forall>p\<in>set (plugin m).
        pluginVersionMinorMin p = -1 \<and> -1 \<le> pluginVersionMinorMax p)"
  by (simp add: registry_defs)

lemma knobChoiceOptionFilters_bounds:
  "\<forall>f\<in>set (knobChoiceOptionFilters K).
     vMajor (natronVersionMin f) = -1 \<and> -1 \<le> vMinor (natronVersionMax f) \<and>
     -1 \<le> vRev (natronVersionMax f) \<and>
     (\<forall>m\<in>set (filters f). \<forall>p\<in>set (plugin m).
        pluginVersionMinorMin p = -1 \<and> -1 \<le> pluginVersionMinorMax p)"
  by (simp add: registry_defs)

text \<open>
  C2. For every call of filterKnobNameCompat or filterKnobChoiceOptionCompat, a -1 supplied
  by the caller in a version field disables every version constraint on that field and on
  every finer field: the call returns what the same lookup returns on the registry with
  those constraints removed, there for any values of the fields concerned. For the host
  version: -1 as major removes the host bounds of every rule, -1 as minor opens them from
  the minor field on, -1 as revision opens them at the revision field. For the plug-in
  version: -1 as major removes the version range of every plug-in constraint, -1 as minor
  opens it at the minor field. So the host version (2, -1, -1) gives the result of the
  registry whose host bounds are on the major field only.
\<close>

theorem sentinel_disables_finer_version_constraints:
  "filterKnobNameCompat K pluginId pvMajor pvMinor (-1) nvMinor nvRev name =
     filterKnobNameCompat_loop (map hostRangeRemoved (knobNameFilters K))
       pluginId pvMajor pvMinor major' minor' revision' name \<and>
   filterKnobNameCompat K pluginId pvMajor pvMinor nvMajor (-1) nvRev name =
     filterKnobNameCompat_loop (map hostMinorRemoved (knobNameFilters K))
       pluginId pvMajor pvMinor nvMajor minor' revision' name \<and>
   filterKnobNameCompat K pluginId pvMajor pvMinor nvMajor nvMinor (-1) name =
     filterKnobNameCompat_loop (map hostRevisionRemoved (knobNameFilters K))
       pluginId pvMajor pvMinor nvMajor nvMinor revision' name \<and>
   filterKnobNameCompat K pluginId (-1) pvMinor nvMajor nvMinor nvRev name =
     filterKnobNameCompat_loop (map (mapPlugins pluginRangeRemoved) (knobNameFilters K))
       pluginId major' minor' nvMajor nvMinor nvRev name \<and>
   filterKnobNameCompat K pluginId pvMajor (-1) nvMajor nvMinor nvRev name =
     filterKnobNameCompat_loop (map (mapPlugins pluginMinorRemoved) (knobNameFilters K))
       pluginId pvMajor minor' nvMajor nvMinor nvRev name \<and>
   filterKnobChoiceOptionCompat K pluginId pvMajor pvMinor (-1) nvMinor nvRev paramName v =
     filterKnobChoiceOptionCompat_loop (map hostRangeRemoved (knobChoiceOptionFilters K))
       pluginId pvMajor pvMinor major' minor' revision' paramName v \<and>
   filterKnobChoiceOptionCompat K pluginId pvMajor pvMinor nvMajor (-1) nvRev paramName v =
     filterKnobChoiceOptionCompat_loop (map hostMinorRemoved (knobChoiceOptionFilters K))
       pluginId pvMajor pvMinor nvMajor minor' revision' paramName v \<and>
   filterKnobChoiceOptionCompat K pluginId pvMajor pvMinor nvMajor nvMinor (-1) paramName v =
     filterKnobChoiceOptionCompat_loop (map hostRevisionRemoved (knobChoiceOptionFilters K))
       pluginId pvMajor pvMinor nvMajor nvMinor revision' paramName v \<and>
   filterKnobChoiceOptionCompat K pluginId (-1) pvMinor nvMajor nvMinor nvRev paramName v =
     filterKnobChoiceOptionCompat_loop (map (mapPlugins pluginRangeRemoved) (knobChoiceOptionFilters K))
       pluginId major' minor' nvMajor nvMinor nvRev paramName v \<and>
   filterKnobChoiceOptionCompat K pluginId pvMajor (-1) nvMajor nvMinor nvRev paramName v =
     filterKnobChoiceOptionCompat_loop (map (mapPlugins pluginMinorRemoved) (knobChoiceOptionFilters K))
       pluginId pvMajor minor' nvMajor nvMinor nvRev paramName v"
proof -
  note nb = knobNameFilters_bounds[of K]
  note ob = knobChoiceOptionFilters_bounds[of K]
  have n1: "filterKnobNameCompat K pluginId pvMajor pvMinor (-1) nvMinor nvRev name =
     filterKnobNameCompat_loop (map hostRangeRemoved (knobNameFilters K))
       pluginId pvMajor pvMinor major' minor' revision' name"
    unfolding filterKnobNameCompat_def
    by (rule name_loop_map) (auto simp: removed_sel intro!: match_hostRangeRemoved)
  have n2: "filterKnobNameCompat K pluginId pvMajor pvMinor nvMajor (-1) nvRev name =
     filterKnobNameCompat_loop (map hostMinorRemoved (knobNameFilters K))
       pluginId pvMajor pvMinor nvMajor minor' revision' name"
    unfolding filterKnobNameCompat_def
    by (rule name_loop_map) (use nb in \<open>auto simp: removed_sel intro!: match_hostMinorRemoved\<close>)
  have n3: "filterKnobNameCompat K pluginId pvMajor pvMinor nvMajor nvMinor (-1) name =
     filterKnobNameCompat_loop (map hostRevisionRemoved (knobNameFilters K))
       pluginId pvMajor pvMinor nvMajor nvMinor revision' name"
    unfolding filterKnobNameCompat_def
    by (rule name_loop_map) (use nb in \<open>auto simp: removed_sel intro!: match_hostRevisionRemoved\<close>)
  have n4: "filterKnobNameCompat K pluginId (-1) pvMinor nvMajor nvMinor nvRev name =
     filterKnobNameCompat_loop (map (mapPlugins pluginRangeRemoved) (knobNameFilters K))
       pluginId major' minor' nvMajor nvMinor nvRev name"
    unfolding filterKnobNameCompat_def
    by (rule name_loop_map) (auto simp: removed_sel intro!: match_pluginRangeRemoved)
  have n5: "filterKnobNameCompat K pluginId pvMajor (-1) nvMajor nvMinor nvRev name =
     filterKnobNameCompat_loop (map (mapPlugins pluginMinorRemoved) (knobNameFilters K))
       pluginId pvMajor minor' nvMajor nvMinor nvRev name"
    unfolding filterKnobNameCompat_def
    by (rule name_loop_map) (use nb in \<open>auto simp: removed_sel intro!: match_pluginMinorRemoved\<close>)
  have o1: "filterKnobChoiceOptionCompat K pluginId pvMajor pvMinor (-1) nvMinor nvRev paramName v =
     filterKnobChoiceOptionCompat_loop (map hostRangeRemoved (knobChoiceOptionFilters K))
       pluginId pvMajor pvMinor major' minor' revision' paramName v"
    unfolding filterKnobChoiceOptionCompat_def
    by (rule option_loop_map) (auto simp: removed_sel removed_opt intro!: match_hostRangeRemoved)
  have o2: "filterKnobChoiceOptionCompat K pluginId pvMajor pvMinor nvMajor (-1) nvRev paramName v =
     filterKnobChoiceOptionCompat_loop (map hostMinorRemoved (knobChoiceOptionFilters K))
       pluginId pvMajor pvMinor nvMajor minor' revision' paramName v"
    unfolding filterKnobChoiceOptionCompat_def
    by (rule option_loop_map)
       (use ob in \<open>auto simp: removed_sel removed_opt intro!: match_hostMinorRemoved\<close>)
  have o3: "filterKnobChoiceOptionCompat K pluginId pvMajor pvMinor nvMajor nvMinor (-1) paramName v =
     filterKnobChoiceOptionCompat_loop (map hostRevisionRemoved (knobChoiceOptionFilters K))
       pluginId pvMajor pvMinor nvMajor nvMinor revision' paramName v"
    unfolding filterKnobChoiceOptionCompat_def
    by (rule option_loop_map)
       (use ob in \<open>auto simp: removed_sel removed_opt intro!: match_hostRevisionRemoved\<close>)
  have o4: "filterKnobChoiceOptionCompat K pluginId (-1) pvMinor nvMajor nvMinor nvRev paramName v =
     filterKnobChoiceOptionCompat_loop (map (mapPlugins pluginRangeRemoved) (knobChoiceOptionFilters K))
       pluginId major' minor' nvMajor nvMinor nvRev paramName v"
    unfolding filterKnobChoiceOptionCompat_def
    by (rule option_loop_map) (auto simp: removed_sel removed_opt intro!: match_pluginRangeRemoved)
  have o5: "filterKnobChoiceOptionCompat K pluginId pvMajor (-1) nvMajor nvMinor nvRev paramName v =
     filterKnobChoiceOptionCompat_loop (map (mapPlugins pluginMinorRemoved) (knobChoiceOptionFilters K))
       pluginId pvMajor minor' nvMajor nvMinor nvRev paramName v"
    unfolding filterKnobChoiceOptionCompat_def
    by (rule option_loop_map)
       (use ob in \<open>auto simp: removed_sel removed_opt intro!: match_pluginMinorRemoved\<close>)
  from n1 n2 n3 n4 n5 o1 o2 o3 o4 o5 show ?thesis by (intro conjI)
qed

theorem sentinel_disables_finer_version_constraints_witness:
  "filterKnobNameCompat sampleMacros ''net.sf.openfx.Foo'' 1 0 2 (-1) (-1) ''r'' =
     filterKnobNameCompat_loop (map hostMinorRemoved (knobNameFilters sampleMacros))
       ''net.sf.openfx.Foo'' 1 0 2 7 500 ''r'' \<and>
   filterKnobNameCompat sampleMacros ''net.sf.openfx.Foo'' 1 0 2 (-1) (-1) ''r''
     = Inr (True, ''NatronOfxParamProcessR'') \<and>
   filterKnobChoiceOptionCompat sampleMacros ''net.sf.openfx.ShufflePlugin'' (-1) 0 2 0 0
       ''outputR'' ''red'' =
     filterKnobChoiceOptionCompat_loop
       (map (mapPlugins pluginRangeRemoved) (knobChoiceOptionFilters sampleMacros))
       ''net.sf.openfx.ShufflePlugin'' 1 0 2 0 0 ''outputR'' ''red'' \<and>
   filterKnobChoiceOptionCompat sampleMacros ''net.sf.openfx.ShufflePlugin'' (-1) 0 2 0 0
       ''outputR'' ''red'' = Inr (True, ''Color.R'')"
proof -
  have one: "filterKnobNameCompat sampleMacros ''net.sf.openfx.Foo'' 1 0 2 (-1) (-1) ''r'' =
     filterKnobNameCompat_loop (map hostMinorRemoved (knobNameFilters sampleMacros))
       ''net.sf.openfx.Foo'' 1 0 2 7 500 ''r''"
    by (rule sentinel_disables_finer_version_constraints
          [where K = sampleMacros and pvMajor = 1 and pvMinor = 0 and nvMajor = 2
             and minor' = 7 and revision' = 500, THEN conjunct2, THEN conjunct1])
  have two: "filterKnobNameCompat sampleMacros ''net.sf.openfx.Foo'' 1 0 2 (-1) (-1) ''r''
     = Inr (True, ''NatronOfxParamProcessR'')"
    by (simp add: filterKnobNameCompat_def sampleMacros_def registry_defs match_defs string_defs)
  have three: "filterKnobChoiceOptionCompat sampleMacros ''net.sf.openfx.ShufflePlugin'' (-1) 0 2 0 0
       ''outputR'' ''red'' =
     filterKnobChoiceOptionCompat_loop
       (map (mapPlugins pluginRangeRemoved) (knobChoiceOptionFilters sampleMacros))
       ''net.sf.openfx.ShufflePlugin'' 1 0 2 0 0 ''outputR'' ''red''"
    by (rule sentinel_disables_finer_version_constraints
          [where K = sampleMacros and pvMinor = 0 and nvMajor = 2 and nvMinor = 0 and nvRev = 0
             and major' = 1 and minor' = 0,
           THEN conjunct2, THEN conjunct2, THEN conjunct2, THEN conjunct2, THEN conjunct2,
           THEN conjunct2, THEN conjunct2, THEN conjunct2, THEN conjunct1])
  have ne: "kNatronColorPlaneID sampleMacros \<noteq> []"
    by (simp add: sampleMacros_def)
  let ?f = "channelsFilter [''RGBA.R'', ''UV.r'', ''red'', ''r''] (kNatronColorPlaneID sampleMacros @ ''.R'')"
  let ?reg = "knobChoiceOptionFilters sampleMacros"
  have split: "?reg = take 5 ?reg @ ?f # drop 6 ?reg"
    by (simp add: knobChoiceOptionFilters_def)
  have pre: "\<forall>g\<in>set (take 5 ?reg). replacement g \<noteq> [] \<and> optionFilters g \<noteq> [] \<and>
             (matchKnobFilterInternal g ''outputR'' ''net.sf.openfx.ShufflePlugin'' (-1) 0 2 0 0 = Inr False \<or>
              \<not> (\<exists>pat\<in>set (optionFilters g). FilterMatcher.func pat ''red'' (nameToMatch pat)))"
    using ne
    by (simp add: knobChoiceOptionFilters_def addOptionFilter_def
          equalsStringCaseInsensitive_def to_upper_def)
  have gate: "matchKnobFilterInternal ?f ''outputR'' ''net.sf.openfx.ShufflePlugin'' (-1) 0 2 0 0 = Inr True"
    by (simp add: sampleMacros_def registry_defs match_defs string_defs)
  have opt: "optionFilters ?f \<noteq> []" by (simp add: channelsFilter_sel)
  have fires: "\<exists>pat\<in>set (optionFilters ?f). FilterMatcher.func pat ''red'' (nameToMatch pat)"
    by (simp add: channelsFilter_sel addOptionFilter_def equalsStringCaseInsensitive_def to_upper_def)
  have "filterKnobChoiceOptionCompat_loop (take 5 ?reg @ ?f # drop 6 ?reg)
          ''net.sf.openfx.ShufflePlugin'' (-1) 0 2 0 0 ''outputR'' ''red'' = Inr (True, replacement ?f)"
    using option_loop_step[OF pre opt gate] fires by simp
  then have four: "filterKnobChoiceOptionCompat sampleMacros ''net.sf.openfx.ShufflePlugin'' (-1) 0 2 0 0
       ''outputR'' ''red'' = Inr (True, ''Color.R'')"
    unfolding filterKnobChoiceOptionCompat_def using split
    by (simp add: channelsFilter_sel sampleMacros_def)
  from one two three four show ?thesis by (intro conjI)
qed

text \<open>
  Remark. The registries set no lower bound on the host version
  (\<^verbatim>\<open>setNatronVersionMin\<close> is never called) and no minor bound on a plug-in version,
  which is what the theorem above rests on: matchKnobFilterInternal tests only the major
  field of a caller's version against -1, and would compare a -1 in the minor field with
  the minor field of a lower bound.
\<close>

lemma lower_bound_compares_minor:
  "natronVersionMinReject (natronVersion 2 1 0) 2 (-1) (-1) \<and>
   \<not> natronVersionMinReject (natronVersion 2 1 0) 2 1 0"
  by (simp add: natronVersionMinReject_def natronVersion_def)

section \<open>Where the loops agree with the gate of the specification\<close>

text \<open>
  The loops agree with the gate of the specification on alternatives whose constraints
  carry no version range, and on a run of alternatives that all hold the same single
  constraint. Every rule of the two registries is made of these, so on the registries as
  constructed the result of the loops is that of the gate of the specification.
\<close>

lemma pluginLoop_unranged:
  assumes "\<forall>p\<in>set ps. unranged p"
  shows "pluginLoop ps pid a b = MatchPlugin (pluginGate_spec ps pid a b \<and> ps \<noteq> [])"
  using assms
  by (induction ps)
     (auto simp: pluginGate_spec_def pluginConstraint_spec_def unranged_def
        pluginVersionMinReject_def pluginVersionMaxReject_def)

lemma knobMatch_spec_append:
  "knobMatch_spec (ms1 @ ms2) name pid a b =
     (knobMatch_spec ms1 name pid a b \<or> knobMatch_spec ms2 name pid a b)"
  by (simp add: knobMatch_spec_def)

lemma knobMatchLoop_unranged_append:
  assumes "\<forall>m\<in>set ms1. \<forall>p\<in>set (plugin m). unranged p"
  shows "knobMatchLoop (ms1 @ ms2) name pid a b =
           (knobMatch_spec ms1 name pid a b \<or> knobMatchLoop ms2 name pid a b)"
  using assms
proof (induction ms1)
  case Nil then show ?case by (simp add: knobMatch_spec_def)
next
  case (Cons m ms1)
  have pl: "pluginLoop (plugin m) pid a b
              = MatchPlugin (pluginGate_spec (plugin m) pid a b \<and> plugin m \<noteq> [])"
    using Cons.prems by (intro pluginLoop_unranged) simp
  have e: "plugin m = [] \<Longrightarrow> pluginGate_spec (plugin m) pid a b"
    by (simp add: pluginGate_spec_def)
  have IH: "knobMatchLoop (ms1 @ ms2) name pid a b =
           (knobMatch_spec ms1 name pid a b \<or> knobMatchLoop ms2 name pid a b)"
    using Cons by simp
  show ?case
  proof (cases "plugin m = []")
    case True
    with e show ?thesis by (simp add: IH knobMatch_spec_def)
  next
    case False
    then show ?thesis
      by (cases "pluginGate_spec (plugin m) pid a b") (simp_all add: pl IH knobMatch_spec_def)
  qed
qed

lemma knobMatchLoop_unranged:
  assumes "\<forall>m\<in>set ms. \<forall>p\<in>set (plugin m). unranged p"
  shows "knobMatchLoop ms name pid a b = knobMatch_spec ms name pid a b"
  using knobMatchLoop_unranged_append[OF assms, of "[]" name pid a b] by simp

lemma knobMatch_spec_single_fails:
  assumes "\<forall>m\<in>set ms. plugin m = [p]" and "\<not> pluginConstraint_spec p pid a b"
  shows "\<not> knobMatch_spec ms name pid a b"
  using assms by (induction ms) (simp_all add: knobMatch_spec_def pluginGate_spec_def)

lemma knobMatchLoop_same_single_constraint:
  assumes "\<forall>m\<in>set ms. plugin m = [p]"
  shows "knobMatchLoop ms name pid a b = knobMatch_spec ms name pid a b"
  using assms
proof (induction ms)
  case Nil then show ?case by (simp add: knobMatch_spec_def)
next
  case (Cons m ms)
  have pm: "plugin m = [p]" and rest: "\<forall>m\<in>set ms. plugin m = [p]"
    using Cons.prems by simp_all
  have IH: "knobMatchLoop ms name pid a b = knobMatch_spec ms name pid a b"
    using Cons.IH rest by simp
  have step: "knobMatch_spec (m # ms) name pid a b =
      ((pluginConstraint_spec p pid a b \<and>
        FilterMatcher.func (filter_m m) name (nameToMatch (filter_m m))) \<or>
       knobMatch_spec ms name pid a b)"
    by (simp add: knobMatch_spec_def pluginGate_spec_def pm)
  show ?case
  proof (cases "pluginConstraint_spec p pid a b")
    case True
    then have "pluginLoop [p] pid a b = MatchPlugin True"
      by (simp add: pluginConstraint_spec_def)
    then show ?thesis using True by (simp add: pm IH step)
  next
    case False
    have none: "\<not> knobMatch_spec ms name pid a b"
      by (rule knobMatch_spec_single_fails[OF rest False])
    have "pluginLoop [p] pid a b = ReturnFalse \<or> pluginLoop [p] pid a b = MatchPlugin False"
      using False by (auto simp: pluginConstraint_spec_def)
    then show ?thesis using False none by (auto simp: pm IH step)
  qed
qed

lemma shuffle_alternatives:
  "knobMatchLoop (drop 4 (filters channelsFilterBase)) name pid a b =
   knobMatch_spec (drop 4 (filters channelsFilterBase)) name pid a b"
  by (rule knobMatchLoop_same_single_constraint
        [where p = "addPluginMatch ''net.sf.openfx.ShufflePlugin'' 2 (-1) (-1) (-1)"])
     (simp add: channelsFilterBase_def addKnobFilter_def)

lemma channelsFilterBase_gate:
  "knobMatchLoop (filters channelsFilterBase) name pid a b =
   knobMatch_spec (filters channelsFilterBase) name pid a b"
proof -
  let ?ms = "filters channelsFilterBase"
  have split: "?ms = take 4 ?ms @ drop 4 ?ms" by simp
  have u: "\<forall>m\<in>set (take 4 ?ms). \<forall>p\<in>set (plugin m). unranged p"
    by (simp add: channelsFilterBase_def addKnobFilter_def addPluginMatch_def unranged_def)
  have "knobMatchLoop (take 4 ?ms @ drop 4 ?ms) name pid a b =
        knobMatch_spec (take 4 ?ms @ drop 4 ?ms) name pid a b"
    unfolding knobMatchLoop_unranged_append[OF u] knobMatch_spec_append shuffle_alternatives ..
  then show ?thesis by simp
qed

lemma shipped_rules_gate_is_OR:
  "(\<forall>f\<in>set (knobNameFilters K).
      knobMatchLoop (filters f) name pid a b = knobMatch_spec (filters f) name pid a b) \<and>
   (\<forall>f\<in>set (knobChoiceOptionFilters K).
      knobMatchLoop (filters f) name pid a b = knobMatch_spec (filters f) name pid a b)"
proof -
  have n: "\<And>n1 n2 fn. knobMatchLoop
      [addKnobFilter n1 fn [addPluginMatch_startsWith ''fr.inria.'', addPluginMatch_startsWith ''net.sf.openfx.''],
       addKnobFilter n2 fn [addPluginMatch_startsWith ''fr.inria.'', addPluginMatch_startsWith ''net.sf.openfx.'']]
        name pid a b =
     knobMatch_spec
      [addKnobFilter n1 fn [addPluginMatch_startsWith ''fr.inria.'', addPluginMatch_startsWith ''net.sf.openfx.''],
       addKnobFilter n2 fn [addPluginMatch_startsWith ''fr.inria.'', addPluginMatch_startsWith ''net.sf.openfx.'']]
        name pid a b"
    by (rule knobMatchLoop_unranged)
       (auto simp: addKnobFilter_def addPluginMatch_startsWith_def addPluginMatch_def unranged_def)
  have w: "\<And>nm fn. knobMatchLoop
      [addKnobFilter nm fn [addPluginMatch_startsWith ''fr.inria.'']] name pid a b =
     knobMatch_spec [addKnobFilter nm fn [addPluginMatch_startsWith ''fr.inria.'']] name pid a b"
    by (rule knobMatchLoop_unranged)
       (auto simp: addKnobFilter_def addPluginMatch_startsWith_def addPluginMatch_def unranged_def)
  have p: "knobMatchLoop planeKnobFilters name pid a b = knobMatch_spec planeKnobFilters name pid a b"
    by (rule knobMatchLoop_unranged) (auto simp: planeKnobFilters_def addKnobFilter_def)
  show ?thesis
    by (simp add: knobNameFilters_def knobChoiceOptionFilters_def n w p channelsFilter_sel
          channelsFilterBase_gate del: knobMatchLoop.simps pluginLoop.simps)
qed

section \<open>The plug-in gate of an alternative\<close>

lemma pluginGate_spec_perm:
  assumes "mset ps' = mset ps"
  shows "pluginGate_spec ps' pid a b = pluginGate_spec ps pid a b"
proof -
  have s: "set ps' = set ps" using assms by (rule mset_eq_setD)
  have e: "(ps' = []) = (ps = [])" using s by auto
  show ?thesis by (simp add: pluginGate_spec_def list_ex_iff s e)
qed

lemma knobMatch_spec_perm:
  assumes "list_all2 permutedConstraints ms ms'"
  shows "knobMatch_spec ms' name pid a b = knobMatch_spec ms name pid a b"
  using assms
proof (induction rule: list_all2_induct)
  case Nil then show ?case by simp
next
  case (Cons m ms m' ms')
  have g: "pluginGate_spec (plugin m') pid a b = pluginGate_spec (plugin m) pid a b"
    using Cons.hyps(1) by (intro pluginGate_spec_perm) (simp add: permutedConstraints_def)
  have f: "filter_m m' = filter_m m"
    using Cons.hyps(1) by (simp add: permutedConstraints_def)
  show ?case using Cons.IH by (simp add: knobMatch_spec_def g f)
qed

lemma unranged_perm:
  assumes "list_all2 permutedConstraints ms ms'"
      and "\<forall>m\<in>set ms. \<forall>q\<in>set (plugin m). unranged q"
  shows "\<forall>m\<in>set ms'. \<forall>q\<in>set (plugin m). unranged q"
  using assms
proof (induction rule: list_all2_induct)
  case Nil then show ?case by simp
next
  case (Cons m ms m' ms')
  have "set (plugin m') = set (plugin m)"
    using Cons.hyps(1) by (intro mset_eq_setD) (simp add: permutedConstraints_def)
  with Cons show ?case by simp
qed

lemma single_perm:
  assumes "list_all2 permutedConstraints ms ms'"
      and "\<forall>m\<in>set ms. plugin m = [p]"
  shows "\<forall>m\<in>set ms'. plugin m = [p]"
  using assms
proof (induction rule: list_all2_induct)
  case Nil then show ?case by simp
next
  case (Cons m ms m' ms')
  have "mset (plugin m') = mset [p]"
    using Cons.hyps(1) Cons.prems by (simp add: permutedConstraints_def)
  then have "plugin m' = [p]" by (simp add: mset_single_iff_right)
  with Cons show ?case by simp
qed

lemma gateShape_perm:
  assumes "list_all2 permutedConstraints ms ms'" and "gateShape ms"
  shows "gateShape ms'"
proof -
  obtain ms1 ms2 p where ms: "ms = ms1 @ ms2"
    and u: "\<forall>m\<in>set ms1. \<forall>q\<in>set (plugin m). unranged q"
    and s: "\<forall>m\<in>set ms2. plugin m = [p]"
    using assms(2) unfolding gateShape_def by blast
  obtain ms1' ms2' where ms': "ms' = ms1' @ ms2'"
    and r1: "list_all2 permutedConstraints ms1 ms1'"
    and r2: "list_all2 permutedConstraints ms2 ms2'"
    using assms(1) unfolding ms by (auto simp: list_all2_append1)
  show ?thesis
    unfolding gateShape_def
    using ms' unranged_perm[OF r1 u] single_perm[OF r2 s] by blast
qed

lemma gateShape_loop:
  assumes "gateShape ms"
  shows "knobMatchLoop ms name pid a b = knobMatch_spec ms name pid a b"
proof -
  obtain ms1 ms2 p where ms: "ms = ms1 @ ms2"
    and u: "\<forall>m\<in>set ms1. \<forall>q\<in>set (plugin m). unranged q"
    and s: "\<forall>m\<in>set ms2. plugin m = [p]"
    using assms unfolding gateShape_def by blast
  show ?thesis
    unfolding ms knobMatchLoop_unranged_append[OF u] knobMatch_spec_append
      knobMatchLoop_same_single_constraint[OF s] ..
qed

lemma gateShape_gate:
  assumes "gateShape ms" and "m \<in> set ms" and "plugin m \<noteq> []"
  shows "(pluginLoop (plugin m) pid a b = MatchPlugin True) =
         list_ex (\<lambda>p. pluginConstraint_spec p pid a b) (plugin m)"
proof -
  obtain ms1 ms2 p where ms: "ms = ms1 @ ms2"
    and u: "\<forall>m\<in>set ms1. \<forall>q\<in>set (plugin m). unranged q"
    and s: "\<forall>m\<in>set ms2. plugin m = [p]"
    using assms(1) unfolding gateShape_def by blast
  from assms(2) ms consider "m \<in> set ms1" | "m \<in> set ms2" by auto
  then show ?thesis
  proof cases
    case 1
    then have "\<forall>q\<in>set (plugin m). unranged q" using u by simp
    from pluginLoop_unranged[OF this, of pid a b] assms(3)
    show ?thesis by (simp add: pluginGate_spec_def)
  next
    case 2
    then have "plugin m = [p]" using s by simp
    then show ?thesis by (simp add: pluginConstraint_spec_def)
  qed
qed

lemma gateShape_unranged:
  "\<forall>m\<in>set ms. \<forall>q\<in>set (plugin m). unranged q \<Longrightarrow> gateShape ms"
  unfolding gateShape_def by (rule exI[of _ ms], rule exI[of _ "[]"]) simp

lemma gateShape_channelsFilterBase: "gateShape (filters channelsFilterBase)"
proof -
  let ?ms = "filters channelsFilterBase"
  have "?ms = take 4 ?ms @ drop 4 ?ms" by simp
  moreover have "\<forall>m\<in>set (take 4 ?ms). \<forall>p\<in>set (plugin m). unranged p"
    by (simp add: channelsFilterBase_def addKnobFilter_def addPluginMatch_def unranged_def)
  moreover have "\<forall>m\<in>set (drop 4 ?ms).
      plugin m = [addPluginMatch ''net.sf.openfx.ShufflePlugin'' 2 (-1) (-1) (-1)]"
    by (simp add: channelsFilterBase_def addKnobFilter_def)
  ultimately show ?thesis unfolding gateShape_def by blast
qed

lemma gateShape_registries:
  "(\<forall>f\<in>set (knobNameFilters K). gateShape (filters f)) \<and>
   (\<forall>f\<in>set (knobChoiceOptionFilters K). gateShape (filters f))"
proof -
  have n: "\<And>n1 n2 fn. gateShape
      [addKnobFilter n1 fn [addPluginMatch_startsWith ''fr.inria.'', addPluginMatch_startsWith ''net.sf.openfx.''],
       addKnobFilter n2 fn [addPluginMatch_startsWith ''fr.inria.'', addPluginMatch_startsWith ''net.sf.openfx.'']]"
    by (rule gateShape_unranged)
       (auto simp: addKnobFilter_def addPluginMatch_startsWith_def addPluginMatch_def unranged_def)
  have w: "\<And>nm fn. gateShape [addKnobFilter nm fn [addPluginMatch_startsWith ''fr.inria.'']]"
    by (rule gateShape_unranged)
       (auto simp: addKnobFilter_def addPluginMatch_startsWith_def addPluginMatch_def unranged_def)
  have p: "gateShape planeKnobFilters"
    by (rule gateShape_unranged) (auto simp: planeKnobFilters_def addKnobFilter_def)
  show ?thesis
    by (simp add: knobNameFilters_def knobChoiceOptionFilters_def n w p channelsFilter_sel
          gateShape_channelsFilterBase)
qed

lemma match_spec_eq:
  assumes "gateShape (filters f)"
  shows "matchKnobFilterInternal f name pid a b c d e = matchKnobFilter_spec f name pid a b c d e"
  by (simp add: matchKnobFilterInternal_def matchKnobFilter_spec_def gateShape_loop[OF assms])

lemma match_perm:
  assumes "gateShape (filters f)" and "permutedRule f f'"
  shows "matchKnobFilterInternal f' name pid a b c d e =
         matchKnobFilterInternal f name pid a b c d e"
proof -
  have r: "list_all2 permutedConstraints (filters f) (filters f')"
    and sel: "replacement f' = replacement f" "natronVersionMin f' = natronVersionMin f"
      "natronVersionMax f' = natronVersionMax f"
    using assms(2) by (simp_all add: permutedRule_def)
  have e: "(filters f' = []) = (filters f = [])"
    using r by (auto dest: list_all2_lengthD)
  have g': "gateShape (filters f')" by (rule gateShape_perm[OF r assms(1)])
  show ?thesis
    unfolding match_spec_eq[OF g'] match_spec_eq[OF assms(1)]
    by (simp add: matchKnobFilter_spec_def sel e knobMatch_spec_perm[OF r])
qed

lemma name_loop_rel:
  assumes "list_all2 (\<lambda>f f'. replacement f' = replacement f \<and>
             matchKnobFilterInternal f' name pid a b c d e =
             matchKnobFilterInternal f name pid a b c d e) reg reg'"
  shows "filterKnobNameCompat_loop reg' pid a b c d e name =
         filterKnobNameCompat_loop reg pid a b c d e name"
  using assms
proof (induction rule: list_all2_induct)
  case Nil then show ?case by simp
next
  case (Cons f reg f' reg')
  have r: "replacement f' = replacement f"
    and m: "matchKnobFilterInternal f' name pid a b c d e =
            matchKnobFilterInternal f name pid a b c d e"
    using Cons.hyps(1) by simp_all
  show ?case
    by (simp only: filterKnobNameCompat_loop.simps r m Cons.IH)
qed

lemma option_loop_rel:
  assumes "list_all2 (\<lambda>f f'. replacement f' = replacement f \<and> optionFilters f' = optionFilters f \<and>
             matchKnobFilterInternal f' paramName pid a b c d e =
             matchKnobFilterInternal f paramName pid a b c d e) reg reg'"
  shows "filterKnobChoiceOptionCompat_loop reg' pid a b c d e paramName v =
         filterKnobChoiceOptionCompat_loop reg pid a b c d e paramName v"
  using assms
proof (induction rule: list_all2_induct)
  case Nil then show ?case by simp
next
  case (Cons f reg f' reg')
  have r: "replacement f' = replacement f" and o: "optionFilters f' = optionFilters f"
    and m: "matchKnobFilterInternal f' paramName pid a b c d e =
            matchKnobFilterInternal f paramName pid a b c d e"
    using Cons.hyps(1) by simp_all
  show ?case
    by (simp only: filterKnobChoiceOptionCompat_loop.simps r o m Cons.IH)
qed

lemma permutedRule_optionFilters:
  "permutedRule f f' \<Longrightarrow> optionFilters f' = optionFilters f"
  by (cases f, cases f') (simp add: permutedRule_def)

lemma permutedRule_reverseConstraints: "permutedRule f (reverseConstraints f)"
  by (simp add: permutedRule_def reverseConstraints_def list_all2_map2 permutedConstraints_def
        list.rel_refl)

lemma permutedRule_map_reverseConstraints:
  "list_all2 permutedRule reg (map reverseConstraints reg)"
  by (simp add: list_all2_map2 permutedRule_reverseConstraints list.rel_refl)

text \<open>
  C1. For every call of filterKnobNameCompat or filterKnobChoiceOptionCompat and every
  alternative of a registry rule whose list of plug-in constraints is not empty, the
  plug-in gate is a pure OR over the constraints: the loop over the constraints ends with
  matchPlugin true iff some constraint has its identifier comparison succeed on the
  plug-in identifier and the plug-in version within its range; the result of
  matchKnobFilterInternal on the rule is the one computed with the gate of the
  specification, so that a rule matches as soon as one of its alternatives has a
  satisfied constraint (or none) and a matching name, whatever constraints or
  alternatives come before it; and permuting the constraint lists of the alternatives of
  the registry rules changes the result of neither lookup.
\<close>

theorem plugin_gate_is_pure_OR_on_registries:
  "(\<forall>f\<in>set (knobNameFilters K).
      (\<forall>m\<in>set (filters f). plugin m \<noteq> [] \<longrightarrow>
         (pluginLoop (plugin m) pluginId pvMajor pvMinor = MatchPlugin True) =
         list_ex (\<lambda>p. pluginConstraint_spec p pluginId pvMajor pvMinor) (plugin m)) \<and>
      matchKnobFilterInternal f name pluginId pvMajor pvMinor nvMajor nvMinor nvRev =
      matchKnobFilter_spec f name pluginId pvMajor pvMinor nvMajor nvMinor nvRev) \<and>
   (\<forall>f\<in>set (knobChoiceOptionFilters K).
      (\<forall>m\<in>set (filters f). plugin m \<noteq> [] \<longrightarrow>
         (pluginLoop (plugin m) pluginId pvMajor pvMinor = MatchPlugin True) =
         list_ex (\<lambda>p. pluginConstraint_spec p pluginId pvMajor pvMinor) (plugin m)) \<and>
      matchKnobFilterInternal f paramName pluginId pvMajor pvMinor nvMajor nvMinor nvRev =
      matchKnobFilter_spec f paramName pluginId pvMajor pvMinor nvMajor nvMinor nvRev) \<and>
   (list_all2 permutedRule (knobNameFilters K) nameRules' \<longrightarrow>
      filterKnobNameCompat_loop nameRules' pluginId pvMajor pvMinor nvMajor nvMinor nvRev name =
      filterKnobNameCompat K pluginId pvMajor pvMinor nvMajor nvMinor nvRev name) \<and>
   (list_all2 permutedRule (knobChoiceOptionFilters K) optionRules' \<longrightarrow>
      filterKnobChoiceOptionCompat_loop optionRules'
        pluginId pvMajor pvMinor nvMajor nvMinor nvRev paramName v =
      filterKnobChoiceOptionCompat K pluginId pvMajor pvMinor nvMajor nvMinor nvRev paramName v)"
proof -
  note sh = gateShape_registries[of K]
  have A: "\<forall>f\<in>set (knobNameFilters K).
      (\<forall>m\<in>set (filters f). plugin m \<noteq> [] \<longrightarrow>
         (pluginLoop (plugin m) pluginId pvMajor pvMinor = MatchPlugin True) =
         list_ex (\<lambda>p. pluginConstraint_spec p pluginId pvMajor pvMinor) (plugin m)) \<and>
      matchKnobFilterInternal f name pluginId pvMajor pvMinor nvMajor nvMinor nvRev =
      matchKnobFilter_spec f name pluginId pvMajor pvMinor nvMajor nvMinor nvRev"
    using sh by (auto intro!: match_spec_eq simp: gateShape_gate)
  have B: "\<forall>f\<in>set (knobChoiceOptionFilters K).
      (\<forall>m\<in>set (filters f). plugin m \<noteq> [] \<longrightarrow>
         (pluginLoop (plugin m) pluginId pvMajor pvMinor = MatchPlugin True) =
         list_ex (\<lambda>p. pluginConstraint_spec p pluginId pvMajor pvMinor) (plugin m)) \<and>
      matchKnobFilterInternal f paramName pluginId pvMajor pvMinor nvMajor nvMinor nvRev =
      matchKnobFilter_spec f paramName pluginId pvMajor pvMinor nvMajor nvMinor nvRev"
    using sh by (auto intro!: match_spec_eq simp: gateShape_gate)
  have C: "filterKnobNameCompat_loop nameRules' pluginId pvMajor pvMinor nvMajor nvMinor nvRev name =
      filterKnobNameCompat K pluginId pvMajor pvMinor nvMajor nvMinor nvRev name"
    if r: "list_all2 permutedRule (knobNameFilters K) nameRules'"
  proof -
    have "list_all2 (\<lambda>f f'. replacement f' = replacement f \<and>
             matchKnobFilterInternal f' name pluginId pvMajor pvMinor nvMajor nvMinor nvRev =
             matchKnobFilterInternal f name pluginId pvMajor pvMinor nvMajor nvMinor nvRev)
            (knobNameFilters K) nameRules'"
    proof (rule list.rel_mono_strong[OF r])
      fix f f' assume "f \<in> set (knobNameFilters K)" and "f' \<in> set nameRules'"
        and p: "permutedRule f f'"
      then have g: "gateShape (filters f)" using sh by simp
      show "replacement f' = replacement f \<and>
             matchKnobFilterInternal f' name pluginId pvMajor pvMinor nvMajor nvMinor nvRev =
             matchKnobFilterInternal f name pluginId pvMajor pvMinor nvMajor nvMinor nvRev"
        using match_perm[OF g p] p by (simp add: permutedRule_def)
    qed
    then show ?thesis unfolding filterKnobNameCompat_def by (rule name_loop_rel)
  qed
  have D: "filterKnobChoiceOptionCompat_loop optionRules'
        pluginId pvMajor pvMinor nvMajor nvMinor nvRev paramName v =
      filterKnobChoiceOptionCompat K pluginId pvMajor pvMinor nvMajor nvMinor nvRev paramName v"
    if r: "list_all2 permutedRule (knobChoiceOptionFilters K) optionRules'"
  proof -
    have "list_all2 (\<lambda>f f'. replacement f' = replacement f \<and> optionFilters f' = optionFilters f \<and>
             matchKnobFilterInternal f' paramName pluginId pvMajor pvMinor nvMajor nvMinor nvRev =
             matchKnobFilterInternal f paramName pluginId pvMajor pvMinor nvMajor nvMinor nvRev)
            (knobChoiceOptionFilters K) optionRules'"
    proof (rule list.rel_mono_strong[OF r])
      fix f f' assume "f \<in> set (knobChoiceOptionFilters K)" and "f' \<in> set optionRules'"
        and p: "permutedRule f f'"
      then have g: "gateShape (filters f)" using sh by simp
      show "replacement f' = replacement f \<and> optionFilters f' = optionFilters f \<and>
             matchKnobFilterInternal f' paramName pluginId pvMajor pvMinor nvMajor nvMinor nvRev =
             matchKnobFilterInternal f paramName pluginId pvMajor pvMinor nvMajor nvMinor nvRev"
        using match_perm[OF g p] p permutedRule_optionFilters[OF p] by (simp add: permutedRule_def)
    qed
    then show ?thesis unfolding filterKnobChoiceOptionCompat_def by (rule option_loop_rel)
  qed
  from A B C D show ?thesis by blast
qed

text \<open>
  On the registries with the sample macros: the name lookup on the rules with every
  constraint list reversed gives the result of filterKnobNameCompat; and on the red
  channel rule, for the plug-in net.sf.openfx.ShufflePlugin at version 1 (below the
  constraint's lower bound 2) and the parameter outputG, matchKnobFilterInternal and the
  gate of the specification both give false.
\<close>

theorem plugin_gate_is_pure_OR_on_registries_witness:
  "filterKnobNameCompat_loop (map reverseConstraints (knobNameFilters sampleMacros))
       ''net.sf.openfx.Foo'' 1 0 2 0 0 ''r'' =
     filterKnobNameCompat sampleMacros ''net.sf.openfx.Foo'' 1 0 2 0 0 ''r'' \<and>
   filterKnobNameCompat sampleMacros ''net.sf.openfx.Foo'' 1 0 2 0 0 ''r''
     = Inr (True, ''NatronOfxParamProcessR'') \<and>
   matchKnobFilterInternal (knobChoiceOptionFilters sampleMacros ! 5)
       ''outputG'' ''net.sf.openfx.ShufflePlugin'' 1 0 2 0 0 =
     matchKnobFilter_spec (knobChoiceOptionFilters sampleMacros ! 5)
       ''outputG'' ''net.sf.openfx.ShufflePlugin'' 1 0 2 0 0 \<and>
   matchKnobFilterInternal (knobChoiceOptionFilters sampleMacros ! 5)
       ''outputG'' ''net.sf.openfx.ShufflePlugin'' 1 0 2 0 0 = Inr False"
proof -
  note t = plugin_gate_is_pure_OR_on_registries
    [where K = sampleMacros and pluginId = "''net.sf.openfx.Foo''" and pvMajor = 1 and pvMinor = 0
       and nvMajor = 2 and nvMinor = 0 and nvRev = 0 and name = "''r''"
       and nameRules' = "map reverseConstraints (knobNameFilters sampleMacros)"]
  have one: "filterKnobNameCompat_loop (map reverseConstraints (knobNameFilters sampleMacros))
       ''net.sf.openfx.Foo'' 1 0 2 0 0 ''r'' =
     filterKnobNameCompat sampleMacros ''net.sf.openfx.Foo'' 1 0 2 0 0 ''r''"
    using t[THEN conjunct2, THEN conjunct2, THEN conjunct1]
      permutedRule_map_reverseConstraints by blast
  have two: "filterKnobNameCompat sampleMacros ''net.sf.openfx.Foo'' 1 0 2 0 0 ''r''
     = Inr (True, ''NatronOfxParamProcessR'')"
    by (simp add: filterKnobNameCompat_def sampleMacros_def registry_defs match_defs string_defs)
  have mem: "knobChoiceOptionFilters sampleMacros ! 5 \<in> set (knobChoiceOptionFilters sampleMacros)"
    by (simp add: knobChoiceOptionFilters_def)
  have three: "matchKnobFilterInternal (knobChoiceOptionFilters sampleMacros ! 5)
       ''outputG'' ''net.sf.openfx.ShufflePlugin'' 1 0 2 0 0 =
     matchKnobFilter_spec (knobChoiceOptionFilters sampleMacros ! 5)
       ''outputG'' ''net.sf.openfx.ShufflePlugin'' 1 0 2 0 0"
    using plugin_gate_is_pure_OR_on_registries
      [where K = sampleMacros and pluginId = "''net.sf.openfx.ShufflePlugin''"
         and pvMajor = 1 and pvMinor = 0 and nvMajor = 2 and nvMinor = 0 and nvRev = 0
         and paramName = "''outputG''", THEN conjunct2, THEN conjunct1] mem
    by blast
  have r: "knobChoiceOptionFilters sampleMacros ! 5 =
           channelsFilter [''RGBA.R'', ''UV.r'', ''red'', ''r''] (''Color'' @ ''.R'')"
    by (simp add: knobChoiceOptionFilters_def sampleMacros_def)
  have four: "matchKnobFilterInternal (knobChoiceOptionFilters sampleMacros ! 5)
       ''outputG'' ''net.sf.openfx.ShufflePlugin'' 1 0 2 0 0 = Inr False"
    unfolding r by (simp add: registry_defs match_defs string_defs)
  from one two three four show ?thesis by (intro conjI)
qed

text \<open>
  Remark. The theorem rests on the shape of the registry rules. The loop of
  matchKnobFilterInternal leaves the whole function with \<^verbatim>\<open>return false\<close> at the
  first constraint whose identifier matches and whose version range fails (lines 618
  and 627). On a rule of another shape, which the registries do not hold, this differs
  from the gate of the specification: below, an alternative accepts the plug-in
  net.sf.openfx.Foo from version 3 on, or up to version 1, and the call is made for
  version 1.
\<close>

lemma first_version_failure_outside_registries:
  "matchKnobFilterInternal
     \<lparr>filters =
        [addKnobFilter ''size'' equalsStringCaseSensitive
           [addPluginMatch ''net.sf.openfx.Foo'' 3 (-1) (-1) (-1),
            addPluginMatch ''net.sf.openfx.Foo'' (-1) (-1) 1 (-1)]],
      replacement = ''extent'',
      natronVersionMin = newNatronVersionMatch, natronVersionMax = newNatronVersionMatch\<rparr>
     ''size'' ''net.sf.openfx.Foo'' 1 0 2 0 0 = Inr False \<and>
   matchKnobFilterInternal
     \<lparr>filters =
        [addKnobFilter ''size'' equalsStringCaseSensitive
           [addPluginMatch ''net.sf.openfx.Foo'' (-1) (-1) 1 (-1),
            addPluginMatch ''net.sf.openfx.Foo'' 3 (-1) (-1) (-1)]],
      replacement = ''extent'',
      natronVersionMin = newNatronVersionMatch, natronVersionMax = newNatronVersionMatch\<rparr>
     ''size'' ''net.sf.openfx.Foo'' 1 0 2 0 0 = Inr True \<and>
   matchKnobFilterInternal
     \<lparr>filters =
        [addKnobFilter ''size'' equalsStringCaseSensitive
           [addPluginMatch ''net.sf.openfx.Foo'' 3 (-1) (-1) (-1)],
         addKnobFilter ''size'' equalsStringCaseSensitive []],
      replacement = ''extent'',
      natronVersionMin = newNatronVersionMatch, natronVersionMax = newNatronVersionMatch\<rparr>
     ''size'' ''net.sf.openfx.Foo'' 1 0 2 0 0 = Inr False \<and>
   matchKnobFilterInternal
     \<lparr>filters =
        [addKnobFilter ''size'' equalsStringCaseSensitive [],
         addKnobFilter ''size'' equalsStringCaseSensitive
           [addPluginMatch ''net.sf.openfx.Foo'' 3 (-1) (-1) (-1)]],
      replacement = ''extent'',
      natronVersionMin = newNatronVersionMatch, natronVersionMax = newNatronVersionMatch\<rparr>
     ''size'' ''net.sf.openfx.Foo'' 1 0 2 0 0 = Inr True \<and>
   pluginGate_spec
     [addPluginMatch ''net.sf.openfx.Foo'' 3 (-1) (-1) (-1),
      addPluginMatch ''net.sf.openfx.Foo'' (-1) (-1) 1 (-1)] ''net.sf.openfx.Foo'' 1 0 \<and>
   knobMatch_spec
     [addKnobFilter ''size'' equalsStringCaseSensitive
        [addPluginMatch ''net.sf.openfx.Foo'' 3 (-1) (-1) (-1),
         addPluginMatch ''net.sf.openfx.Foo'' (-1) (-1) 1 (-1)]]
     ''size'' ''net.sf.openfx.Foo'' 1 0 \<and>
   knobMatch_spec
     [addKnobFilter ''size'' equalsStringCaseSensitive
        [addPluginMatch ''net.sf.openfx.Foo'' 3 (-1) (-1) (-1)],
      addKnobFilter ''size'' equalsStringCaseSensitive []]
     ''size'' ''net.sf.openfx.Foo'' 1 0"
  by (simp add: match_defs registry_defs string_defs
        knobMatch_spec_def pluginGate_spec_def pluginConstraint_spec_def)

end
